theory Spec2Isabelle
  imports Complex_Main "HOL-Library.Sublist" "HOL-Library.AList"
begin

section \<open>Strings of the script\<close>

text \<open>
  A JavaScript string is modelled as a \<^typ>\<open>string\<close>: a list of code units, each below 256.
  The white space of \<open>String.prototype.trim\<close> and of the regular expression class \<open>\s\<close>
  is, in that range, TAB, LF, VT, FF, CR, SPACE and NBSP.
\<close>

definition LF :: char where
  "LF = CHR 0x0A"

definition CR :: char where
  "CR = CHR 0x0D"

definition isWhiteSpace :: "char \<Rightarrow> bool" where
  "isWhiteSpace c = (c \<in> set [CHR 0x09, CHR 0x0A, CHR 0x0B, CHR 0x0C, CHR 0x0D, CHR 0x20, CHR 0xA0])"

definition trim :: "string \<Rightarrow> string" where
  "trim s = rev (dropWhile isWhiteSpace (rev (dropWhile isWhiteSpace s)))"

text \<open>
  \<open>String.prototype.toUpperCase\<close> replaces every code unit by its upper-case mapping of
  the Unicode character database. Below 256 these are: the letters \<open>a\<close> to \<open>z\<close> and the
  letters from 0xE0 to 0xFE other than the division sign 0xF7, each mapped to the code
  unit 32 below it; the sharp s 0xDF, mapped to the two letters \<open>SS\<close>; the micro sign 0xB5
  and the y with diaeresis 0xFF, mapped to U+039C and U+0178. These two capitals have no
  code unit below 256 and no other character is mapped to them, so in an upper-cased text
  they are written with the code units 0xB5 and 0xFF, which the mapping of no character
  produces. Every other code unit is mapped to itself.
\<close>

definition toUpperChar :: "char \<Rightarrow> string" where
  "toUpperChar c =
     (let n = (of_char c :: nat)
      in if 97 \<le> n \<and> n \<le> 122 then [char_of (n - 32)]
         else if n = 223 then ''SS''
         else if 224 \<le> n \<and> n \<le> 254 \<and> n \<noteq> 247 then [char_of (n - 32)]
         else [c])"

definition toUpperCase :: "string \<Rightarrow> string" where
  "toUpperCase s = concat (map toUpperChar s)"

text \<open>
  \<open>s.substring(a, b)\<close>: both indices are clamped to \<open>[0, length s]\<close> and swapped when
  the first exceeds the second.
\<close>

definition substring :: "string \<Rightarrow> int \<Rightarrow> int \<Rightarrow> string" where
  "substring s a b =
     (let n = int (length s);
          fs = min (max a 0) n;
          fe = min (max b 0) n;
          lo = min fs fe;
          hi = max fs fe
      in take (nat (hi - lo)) (drop (nat lo) s))"

text \<open>\<open>s.substring(a)\<close>: from the clamped index to the end.\<close>

definition substringFrom :: "string \<Rightarrow> int \<Rightarrow> string" where
  "substringFrom s a = drop (nat (min (max a 0) (int (length s)))) s"

text \<open>
  \<open>s.indexOf(p)\<close>, with \<open>None\<close> for the result \<open>-1\<close>, and \<open>s.includes(p)\<close>
  (named \<open>includesStr\<close> here).
\<close>

fun indexOf :: "string \<Rightarrow> string \<Rightarrow> nat option" where
  "indexOf [] p = (if p = [] then Some 0 else None)"
| "indexOf (c # cs) p =
     (if prefix p (c # cs) then Some 0 else map_option Suc (indexOf cs p))"

definition includesStr :: "string \<Rightarrow> string \<Rightarrow> bool" where
  "includesStr s p = (indexOf s p \<noteq> None)"

text \<open>
  \<open>content.split(/\r?\n/)\<close>: the text is cut at every LF, and a CR that stands directly
  before that LF belongs to the separator. The result always has at least one line.
\<close>

fun splitLines :: "string \<Rightarrow> string list" where
  "splitLines [] = [[]]"
| "splitLines (c # cs) =
     (if c = LF then [] # splitLines cs
      else if c = CR \<and> take 1 cs = [LF] then splitLines cs
      else (case splitLines cs of [] \<Rightarrow> [[c]] | l # ls \<Rightarrow> (c # l) # ls))"

section \<open>Fixed-width classifier\<close>

text \<open>
  \<open>validateDataUpload\<close> returns \<open>0\<close> for a Volume report, \<open>1\<close> for a Commission report and
  \<open>null\<close> (here \<open>None\<close>) when the type cannot be determined.
\<close>

definition validateDataUpload :: "string \<Rightarrow> nat option" where
  "validateDataUpload content =
     (let lines = splitLines content in
      if length lines \<ge> 3 then
        (let thirdLine = toUpperCase (lines ! 2) in
         if includesStr thirdLine ''VOLUME'' then Some 0
         else if includesStr thirdLine ''COMMISSION'' then Some 1
         else None)
      else None)"

section \<open>Header and column locator\<close>

text \<open>
  An exception of the script is a value of \<open>jserror\<close>; a function that can throw returns
  \<open>jserror + 'a\<close>.
\<close>

datatype jserror = TypeError | RangeError

text \<open>
  A bracket is the pair \<open>{start, end}\<close> of character offsets (fields \<open>bstart\<close> and
  \<open>bend\<close>); the column map is the object \<open>findColumnSeparators\<close> returns. Its
  \<open>dataColumnIndices\<close> is an object whose keys keep their insertion order: an association
  list, written with \<^const>\<open>AList.update\<close>.
\<close>

record bracket =
  bstart :: int
  bend :: int

record separators =
  groupBracket :: bracket
  codeBracket :: bracket
  nameBracket :: bracket
  dataColumnIndices :: "(string \<times> nat) list"

text \<open>
  The regular expression \<open>/[A-Z0-9]{4}/\<close>: \<open>matchCode\<close> is the index of its first match,
  \<open>None\<close> when \<open>dataLine.match\<close> returns \<open>null\<close>.
\<close>

definition isCodeChar :: "char \<Rightarrow> bool" where
  "isCodeChar c =
     (let n = (of_char c :: nat) in (65 \<le> n \<and> n \<le> 90) \<or> (48 \<le> n \<and> n \<le> 57))"

definition startsWithCode :: "string \<Rightarrow> bool" where
  "startsWithCode s = (length (take 4 s) = 4 \<and> list_all isCodeChar (take 4 s))"

fun matchCode :: "string \<Rightarrow> nat option" where
  "matchCode [] = None"
| "matchCode (c # cs) =
     (if startsWithCode (c # cs) then Some 0 else map_option Suc (matchCode cs))"

definition codeAt :: "string \<Rightarrow> nat \<Rightarrow> bool" where
  "codeAt line k = startsWithCode (drop k line)"

definition squashedHeaderVolume :: string where
  "squashedHeaderVolume = ''CLNTCURRMOLYSAMEMOCURRYTDYTDLASTYRTOTALLASTYR''"

definition squashedHeaderCommission :: string where
  "squashedHeaderCommission = ''CLNTCURRMOLYSAMEMOCURRYTDYTDLASTYRTOTALLASTYRAVG''"

fun findHeaderRow_from :: "nat \<Rightarrow> string list \<Rightarrow> string \<Rightarrow> int" where
  "findHeaderRow_from i [] targetPattern = - 1"
| "findHeaderRow_from i (l # ls) targetPattern =
     (if filter (\<lambda>c. \<not> isWhiteSpace c) l = targetPattern then int i + 1
      else findHeaderRow_from (i + 1) ls targetPattern)"

definition findHeaderRow :: "string \<Rightarrow> nat \<Rightarrow> int" where
  "findHeaderRow content fileType =
     findHeaderRow_from 0 (splitLines content)
       (if fileType = 0 then squashedHeaderVolume else squashedHeaderCommission)"

definition nthLine :: "string list \<Rightarrow> int \<Rightarrow> string option" where
  "nthLine lines i = (if 0 \<le> i \<and> i < int (length lines) then Some (lines ! nat i) else None)"

fun recordTerms :: "string \<Rightarrow> string list \<Rightarrow> (string \<times> nat) list \<Rightarrow> (string \<times> nat) list" where
  "recordTerms headerText [] d = d"
| "recordTerms headerText (t # ts) d =
     recordTerms headerText ts
       (case indexOf headerText t of None \<Rightarrow> d | Some idx \<Rightarrow> AList.update t idx d)"

definition secondaryTerms :: "string list" where
  "secondaryTerms = [''MTD % DIFF'', ''YTD % DIFF'', ''YTD DIFF'']"

fun recordSecondary :: "string list \<Rightarrow> int list \<Rightarrow> (string \<times> nat) list \<Rightarrow> (string \<times> nat) list" where
  "recordSecondary lines [] d = d"
| "recordSecondary lines (rowIndex # rest) d =
     recordSecondary lines rest
       (case nthLine lines rowIndex of
          None \<Rightarrow> d
        | Some headerText \<Rightarrow> if headerText = [] then d else recordTerms headerText secondaryTerms d)"

definition dataColumnTerms :: "nat \<Rightarrow> string list" where
  "dataColumnTerms fileType =
     (if fileType = 1 then [''CURR MO'', ''LY SAME MO'', ''CURR YTD'', ''YTD LAST YR'', ''TOTAL LAST YR'', ''AVG'']
      else [''CURR MO'', ''LY SAME MO'', ''CURR YTD'', ''YTD LAST YR'', ''TOTAL LAST YR''])"

definition findColumnSeparators :: "string \<Rightarrow> int \<Rightarrow> nat \<Rightarrow> jserror + separators option" where
  "findColumnSeparators content headerRow fileType =
     (if fileType = 1 \<or> fileType = 0 then
        (let lines = splitLines content;
             dataLineIndex = headerRow + 4 - 1
         in if headerRow \<noteq> - 1 \<and> dataLineIndex < int (length lines) then
              (case nthLine lines dataLineIndex of
                 None \<Rightarrow> Inl TypeError
               | Some dataLine \<Rightarrow>
                   (case matchCode dataLine of
                      None \<Rightarrow> Inr None
                    | Some codeIndex \<Rightarrow>
                        (let groupBracket = \<lparr>bstart = 0, bend = int codeIndex\<rparr>;
                             codeBracket = \<lparr>bstart = int codeIndex, bend = int codeIndex + 4\<rparr>;
                             nameStartIndex = bend codeBracket;
                             searchArea = substringFrom dataLine nameStartIndex;
                             nameEndIndex =
                               (case indexOf searchArea ''    '' of
                                  Some fourSpacesIndex \<Rightarrow> nameStartIndex + int fourSpacesIndex
                                | None \<Rightarrow> int (length dataLine));
                             nameBracket = \<lparr>bstart = nameStartIndex, bend = nameEndIndex\<rparr>
                         in case nthLine lines (headerRow - 1) of
                              None \<Rightarrow> Inl TypeError
                            | Some headerLine \<Rightarrow>
                                Inr (Some \<lparr>groupBracket = groupBracket,
                                   codeBracket = codeBracket,
                                   nameBracket = nameBracket,
                                   dataColumnIndices =
                                     recordSecondary lines [headerRow - 1, headerRow]
                                       (recordTerms headerLine (dataColumnTerms fileType) [])\<rparr>))))
            else Inr None)
      else Inr None)"

section \<open>Fixed-width row parser\<close>

text \<open>
  \<open>generateTableHTML\<close> builds the table as HTML text. The line breaks and the indentation
  inside its template literals are not reproduced. \<open>tableRowHTML\<close> is the body of the loop
  over the lines: the text that one line appends to the table, empty when the line is
  skipped.
\<close>

definition isDiffColumn :: "string \<Rightarrow> bool" where
  "isDiffColumn label = includesStr label ''% DIFF''"

fun replaceWhiteSpaceRuns :: "bool \<Rightarrow> string \<Rightarrow> string" where
  "replaceWhiteSpaceRuns inRun [] = []"
| "replaceWhiteSpaceRuns inRun (c # cs) =
     (if isWhiteSpace c then (if inRun then [] else ''<br>'') @ replaceWhiteSpaceRuns True cs
      else c # replaceWhiteSpaceRuns False cs)"

definition formatHeaderLabel :: "string \<Rightarrow> string" where
  "formatHeaderLabel label =
     (if label = ''Client name'' then label
      else if includesStr label '' VOLUME'' then
        trim (case indexOf label '' VOLUME'' of None \<Rightarrow> label | Some i \<Rightarrow> take i label) @ ''<br>VOLUME''
      else if includesStr label ''% DIFF'' then
        (case indexOf label '' % '' of None \<Rightarrow> label | Some i \<Rightarrow> take i label @ '' %<br>'' @ drop (i + 3) label)
      else replaceWhiteSpaceRuns False label)"

definition sortedDataColumns :: "(string \<times> nat) list \<Rightarrow> string list" where
  "sortedDataColumns indices = map fst (sort_key snd indices)"

definition tableHeadHTML :: "string \<Rightarrow> string list \<Rightarrow> string" where
  \<open>tableHeadHTML title cols =
     ''<div class="excel-table-container"><h2>'' @ title @ ''</h2><table class="excel-table"><thead><tr>''
     @ ''<th>Group</th><th>Code</th><th>Client Name</th>''
     @ concat (map (\<lambda>name. ''<th'' @ (if isDiffColumn name then '' class="diff-header"'' else [])
                      @ ''>'' @ formatHeaderLabel name @ ''</th>'') cols)
     @ ''</tr></thead><tbody>''\<close>

definition tableRowHTML :: "separators \<Rightarrow> string list \<Rightarrow> string \<Rightarrow> string" where
  \<open>tableRowHTML separators cols line =
     (let groupValue = trim (substring line (bstart (groupBracket separators)) (bend (groupBracket separators)));
          codeValue = trim (substring line (bstart (codeBracket separators)) (bend (codeBracket separators)))
      in if length groupValue \<noteq> 1 \<or> codeValue = [] then []
         else ''<tr>'' @ ''<td>'' @ groupValue @ ''</td>'' @ ''<td>'' @ codeValue @ ''</td>''
           @ ''<td>'' @ trim (substring line (bstart (nameBracket separators)) (bend (nameBracket separators))) @ ''</td>''
           @ concat (map (\<lambda>name.
                 (let data = (case map_of (dataColumnIndices separators) name of
                                None \<Rightarrow> []
                              | Some startIndex \<Rightarrow> trim (substring line (int startIndex) (int startIndex + 15)))
                  in ''<td'' @ (if isDiffColumn name then '' class="diff-cell"'' else []) @ ''>'' @ data @ ''</td>''))
               cols)
           @ ''</tr>'')\<close>

definition generateTableHTML :: "string \<Rightarrow> string \<Rightarrow> separators option \<Rightarrow> string" where
  \<open>generateTableHTML title content separators =
     (case separators of
        None \<Rightarrow> ''<h2>'' @ title
          @ ''</h2><p class="text-danger">Could not generate table because column definitions were not found.</p>''
      | Some seps \<Rightarrow>
          (let lines = splitLines content;
               cols = sortedDataColumns (dataColumnIndices seps)
           in tableHeadHTML title cols @ concat (map (tableRowHTML seps cols) lines)
              @ ''</tbody></table></div>''))\<close>


text \<open>
  The words of the specification: a line is a data row when its group slice trims to
  exactly one character and its code slice trims to a non-empty string; a run of four
  spaces starts at offset \<open>j\<close> of the search area.
\<close>

definition fourSpacesAt :: "string \<Rightarrow> nat \<Rightarrow> bool" where
  "fourSpacesAt area j = prefix ''    '' (drop j area)"

definition isDataRow :: "separators \<Rightarrow> string \<Rightarrow> bool" where
  "isDataRow separators line =
     (length (trim (substring line (bstart (groupBracket separators)) (bend (groupBracket separators)))) = 1
      \<and> trim (substring line (bstart (codeBracket separators)) (bend (codeBracket separators))) \<noteq> [])"


text \<open>A small Volume report and the column map the locator finds in it.\<close>

definition sampleReport :: string where
  "sampleReport =
     ''REPORT 0001'' @ [LF]
     @ ''DATE 01/31/25'' @ [LF]
     @ ''CLIENT VOLUME REPORT'' @ [LF]
     @ ''  CLNT                        CURR MO        LY SAME MO     CURR YTD       YTD LAST YR    TOTAL LAST YR'' @ [LF]
     @ [] @ [LF]
     @ [] @ [LF]
     @ ''----'' @ [LF]
     @ ''C 1234 ACME TRADING CO        110            100            1,200          1,000          12,000'' @ [LF]
     @ ''CC5678 SUBTOTAL               110            100            1,200          1,000          12,000'' @ [LF]
     @ ''U AB12 BOLT WORKS             0              50             600            0              7,000'' @ [LF]
     @ ''  TOTAL''"

definition sampleSeparators :: separators where
  "sampleSeparators =
     \<lparr>groupBracket = \<lparr>bstart = 0, bend = 2\<rparr>,
      codeBracket = \<lparr>bstart = 2, bend = 6\<rparr>,
      nameBracket = \<lparr>bstart = 6, bend = 22\<rparr>,
      dataColumnIndices = [(''CURR MO'', 30), (''LY SAME MO'', 45), (''CURR YTD'', 60),
        (''YTD LAST YR'', 75), (''TOTAL LAST YR'', 90)]\<rparr>"

text \<open>A report whose first data line carries a lower-case code.\<close>

definition lowercaseReport :: string where
  "lowercaseReport =
     ''  CLNT    CURR MO    LY SAME MO    CURR YTD    YTD LAST YR    TOTAL LAST YR'' @ [LF]
     @ [] @ [LF] @ [] @ [LF] @ ''----'' @ [LF]
     @ ''C ab12 acme trading co    110    100''"

section \<open>Numbers of the script\<close>

text \<open>
  A JavaScript number is \<open>NaN\<close>, an infinity or a finite double; a finite double is kept
  as the rational number it denotes, and the two zeros are one value (the script never
  tells them apart: it prints, compares and rounds them alike, and it divides by a zero
  nowhere).

  \<open>toNumber r\<close> is the double nearest to the rational \<open>r\<close>, the rounding that reading a
  numeral and every arithmetic operation apply to their exact result (round to nearest,
  ties to even). With \<open>2^e \<le> \<bar>r\<bar> < 2^(e+1)\<close>, the doubles around \<open>r\<close> are the multiples of
  \<open>2^(e-52)\<close>, and of \<open>2^(-1074)\<close> when \<open>e < -1022\<close> (the subnormal range, where the result
  may be zero); a result that reaches \<open>2^1024\<close> is an infinity. The work is done on the
  numerator and the denominator of \<open>r\<close>: \<open>bitLength n\<close> is the number of binary digits of
  \<open>n\<close>, \<open>powInt b n\<close> is \<open>b^n\<close>, \<open>scaled p q s\<close> is the fraction \<open>(p / q) / 2^s\<close>,
  \<open>floorLog2 p q\<close> is the \<open>e\<close> above and \<open>roundHalfEven n d\<close> is the integer nearest to
  \<open>n / d\<close>.
\<close>

datatype jsnum = NaN | PInf | NInf | Fin rat

function bitLength :: "int \<Rightarrow> int" where
  "bitLength n = (if n \<le> 0 then 0 else 1 + bitLength (n div 2))"
  by pat_completeness auto
termination
  by (relation "measure nat") auto

declare bitLength.simps [simp del]

function powInt :: "int \<Rightarrow> int \<Rightarrow> int" where
  "powInt b n =
     (if n \<le> 0 then 1
      else if even n then powInt (b * b) (n div 2)
      else b * powInt (b * b) (n div 2))"
  by pat_completeness auto
termination
  by (relation "measure (\<lambda>(b, n). nat n)") auto

declare powInt.simps [simp del]

definition pow2 :: "int \<Rightarrow> rat" where
  "pow2 e = (if 0 \<le> e then of_int (powInt 2 e) else 1 / of_int (powInt 2 (- e)))"

definition scaled :: "int \<Rightarrow> int \<Rightarrow> int \<Rightarrow> int \<times> int" where
  "scaled p q s = (if 0 \<le> s then (p, q * powInt 2 s) else (p * powInt 2 (- s), q))"

definition floorLog2 :: "int \<Rightarrow> int \<Rightarrow> int" where
  "floorLog2 p q =
     (let e = bitLength p - bitLength q
      in case scaled p q e of (n, d) \<Rightarrow> if d \<le> n then e else e - 1)"

definition roundHalfEven :: "int \<Rightarrow> int \<Rightarrow> int" where
  "roundHalfEven n d =
     (let f = n div d; twice = 2 * (n mod d)
      in if twice < d then f else if d < twice then f + 1 else if even f then f else f + 1)"

definition toNumber :: "rat \<Rightarrow> jsnum" where
  "toNumber r =
     (case quotient_of r of
        (p, q) \<Rightarrow>
          if p = 0 then Fin 0
          else
            (let s = max (floorLog2 \<bar>p\<bar> q) (- 1022) - 52;
                 m = (case scaled \<bar>p\<bar> q s of (n, d) \<Rightarrow> roundHalfEven n d);
                 v = of_int m * pow2 s
             in if pow2 1024 \<le> v then (if 0 < p then PInf else NInf)
                else Fin (if 0 < p then v else - v)))"

definition isNaN :: "jsnum \<Rightarrow> bool" where
  "isNaN x = (x = NaN)"

definition isFinite :: "jsnum \<Rightarrow> bool" where
  "isFinite x = (case x of Fin r \<Rightarrow> True | _ \<Rightarrow> False)"

definition js_neg :: "jsnum \<Rightarrow> jsnum" where
  "js_neg x = (case x of NaN \<Rightarrow> NaN | PInf \<Rightarrow> NInf | NInf \<Rightarrow> PInf | Fin r \<Rightarrow> Fin (- r))"

definition js_sub :: "jsnum \<Rightarrow> jsnum \<Rightarrow> jsnum" where
  "js_sub x y =
     (case x of
        NaN \<Rightarrow> NaN
      | PInf \<Rightarrow> (case y of NaN \<Rightarrow> NaN | PInf \<Rightarrow> NaN | _ \<Rightarrow> PInf)
      | NInf \<Rightarrow> (case y of NaN \<Rightarrow> NaN | NInf \<Rightarrow> NaN | _ \<Rightarrow> NInf)
      | Fin a \<Rightarrow> (case y of NaN \<Rightarrow> NaN | PInf \<Rightarrow> NInf | NInf \<Rightarrow> PInf | Fin b \<Rightarrow> toNumber (a - b)))"

definition js_mul :: "jsnum \<Rightarrow> jsnum \<Rightarrow> jsnum" where
  "js_mul x y =
     (case x of
        NaN \<Rightarrow> NaN
      | PInf \<Rightarrow>
          (case y of NaN \<Rightarrow> NaN | PInf \<Rightarrow> PInf | NInf \<Rightarrow> NInf
           | Fin b \<Rightarrow> if b = 0 then NaN else if 0 < b then PInf else NInf)
      | NInf \<Rightarrow>
          (case y of NaN \<Rightarrow> NaN | PInf \<Rightarrow> NInf | NInf \<Rightarrow> PInf
           | Fin b \<Rightarrow> if b = 0 then NaN else if 0 < b then NInf else PInf)
      | Fin a \<Rightarrow>
          (case y of NaN \<Rightarrow> NaN
           | PInf \<Rightarrow> if a = 0 then NaN else if 0 < a then PInf else NInf
           | NInf \<Rightarrow> if a = 0 then NaN else if 0 < a then NInf else PInf
           | Fin b \<Rightarrow> toNumber (a * b)))"

definition js_div :: "jsnum \<Rightarrow> jsnum \<Rightarrow> jsnum" where
  "js_div x y =
     (case x of
        NaN \<Rightarrow> NaN
      | PInf \<Rightarrow> (case y of Fin b \<Rightarrow> if 0 \<le> b then PInf else NInf | _ \<Rightarrow> NaN)
      | NInf \<Rightarrow> (case y of Fin b \<Rightarrow> if 0 \<le> b then NInf else PInf | _ \<Rightarrow> NaN)
      | Fin a \<Rightarrow>
          (case y of NaN \<Rightarrow> NaN | PInf \<Rightarrow> Fin 0 | NInf \<Rightarrow> Fin 0
           | Fin b \<Rightarrow>
               if b = 0 then (if a = 0 then NaN else if 0 < a then PInf else NInf)
               else toNumber (a / b)))"

definition js_le :: "jsnum \<Rightarrow> jsnum \<Rightarrow> bool" where
  "js_le x y =
     (case x of
        NaN \<Rightarrow> False
      | PInf \<Rightarrow> (case y of PInf \<Rightarrow> True | _ \<Rightarrow> False)
      | NInf \<Rightarrow> (case y of NaN \<Rightarrow> False | _ \<Rightarrow> True)
      | Fin a \<Rightarrow> (case y of NaN \<Rightarrow> False | PInf \<Rightarrow> True | NInf \<Rightarrow> False | Fin b \<Rightarrow> a \<le> b))"

definition Math_round :: "jsnum \<Rightarrow> jsnum" where
  "Math_round x = (case x of Fin r \<Rightarrow> Fin (of_int \<lfloor>r + 1 / 2\<rfloor>) | _ \<Rightarrow> x)"

text \<open>
  Reading a numeral. \<open>scanDecimal\<close> reads the longest prefix that is a
  \<open>StrDecimalLiteral\<close> (sign, \<open>Infinity\<close>, or digits with an optional fraction and an
  optional exponent) and returns its value, the double nearest to the number that the
  digits denote, and the rest of the text. \<open>parseFloat\<close> skips
  leading white space and takes that prefix; \<open>Number\<close> trims the text, reads the empty
  text as 0, accepts the \<open>0x\<close>, \<open>0o\<close> and \<open>0b\<close> literals, and otherwise wants the whole
  text to be a decimal literal.
\<close>

definition isDigit :: "char \<Rightarrow> bool" where
  "isDigit c = (let n = (of_char c :: nat) in 48 \<le> n \<and> n \<le> 57)"

definition digitsValue :: "int \<Rightarrow> string \<Rightarrow> int" where
  "digitsValue base ds = foldl (\<lambda>a c. base * a + (of_char c - 48)) 0 ds"

definition pow10 :: "int \<Rightarrow> rat" where
  "pow10 e = (if 0 \<le> e then of_int (powInt 10 e) else 1 / of_int (powInt 10 (- e)))"

definition scanExponent :: "string \<Rightarrow> int \<times> string" where
  "scanExponent s =
     (case s of
        [] \<Rightarrow> (0, s)
      | c # r \<Rightarrow>
          if c = CHR ''e'' \<or> c = CHR ''E'' then
            (let neg = (take 1 r = ''-'');
                 r' = (if take 1 r = ''-'' \<or> take 1 r = ''+'' then drop 1 r else r);
                 ds = takeWhile isDigit r'
             in if ds = [] then (0, s)
                else ((if neg then - 1 else 1) * digitsValue 10 ds, dropWhile isDigit r'))
          else (0, s))"

definition scanUnsigned :: "string \<Rightarrow> (jsnum \<times> string) option" where
  "scanUnsigned s =
     (if prefix ''Infinity'' s then Some (PInf, drop 8 s)
      else
        (let ip = takeWhile isDigit s;
             r1 = dropWhile isDigit s;
             dot = (take 1 r1 = ''.'');
             fp = (if dot then takeWhile isDigit (drop 1 r1) else []);
             r2 = (if dot then dropWhile isDigit (drop 1 r1) else r1)
         in if ip = [] \<and> fp = [] then None
            else (case scanExponent r2 of
                    (e, r3) \<Rightarrow>
                      Some (toNumber (of_int (digitsValue 10 (ip @ fp)) * pow10 (e - int (length fp))), r3))))"

definition scanDecimal :: "string \<Rightarrow> (jsnum \<times> string) option" where
  "scanDecimal s =
     (if take 1 s = ''+'' then scanUnsigned (drop 1 s)
      else if take 1 s = ''-'' then map_option (\<lambda>(v, r). (js_neg v, r)) (scanUnsigned (drop 1 s))
      else scanUnsigned s)"

definition parseFloat :: "string \<Rightarrow> jsnum" where
  "parseFloat s =
     (case scanDecimal (dropWhile isWhiteSpace s) of None \<Rightarrow> NaN | Some (v, r) \<Rightarrow> v)"

definition hexDigitValue :: "char \<Rightarrow> int option" where
  "hexDigitValue c =
     (let n = (of_char c :: int)
      in if 48 \<le> n \<and> n \<le> 57 then Some (n - 48)
         else if 65 \<le> n \<and> n \<le> 70 then Some (n - 55)
         else if 97 \<le> n \<and> n \<le> 102 then Some (n - 87)
         else None)"

definition radixValue :: "int \<Rightarrow> string \<Rightarrow> int option" where
  "radixValue base ds =
     (if ds \<noteq> [] \<and> list_all (\<lambda>c. case hexDigitValue c of None \<Rightarrow> False | Some d \<Rightarrow> d < base) ds
      then Some (foldl (\<lambda>a c. base * a + (case hexDigitValue c of None \<Rightarrow> 0 | Some d \<Rightarrow> d)) 0 ds)
      else None)"

definition scanNonDecimal :: "string \<Rightarrow> jsnum option" where
  "scanNonDecimal s =
     (if take 1 s = ''0'' then
        (let x = take 1 (drop 1 s); ds = drop 2 s
         in map_option (\<lambda>n. toNumber (of_int n))
              (if x = ''x'' \<or> x = ''X'' then radixValue 16 ds
               else if x = ''o'' \<or> x = ''O'' then radixValue 8 ds
               else if x = ''b'' \<or> x = ''B'' then radixValue 2 ds
               else None))
      else None)"

definition Number :: "string \<Rightarrow> jsnum" where
  "Number s =
     (let t = trim s
      in if t = [] then Fin 0
         else (case scanNonDecimal t of
                 Some v \<Rightarrow> v
               | None \<Rightarrow> (case scanDecimal t of Some (v, []) \<Rightarrow> v | _ \<Rightarrow> NaN)))"

text \<open>
  A value of the script that may be \<open>undefined\<close>, \<open>null\<close>, a string or a number.
\<close>

datatype jsval = Undefined | Null | Str string | Num jsnum

text \<open>
  \<open>Number::toString\<close> on the integral values that \<open>Math.round\<close> returns. For \<open>x > 0\<close> the
  language takes integers \<open>n\<close>, \<open>k\<close> and \<open>s\<close> with \<open>10^(k-1) \<le> s < 10^k\<close> such that
  \<open>s * 10^(n-k)\<close> is read back as \<open>x\<close>, with \<open>k\<close> as small as possible and, among these,
  \<open>s * 10^(n-k)\<close> nearest to \<open>x\<close> (the even \<open>s\<close> of two). It prints the \<open>k\<close> digits of \<open>s\<close>
  followed by \<open>n - k\<close> zeros when \<open>n \<le> 21\<close>, and the exponential notation with the
  exponent \<open>n - 1\<close> otherwise.

  \<open>shortestDigits x k\<close> looks for the pair \<open>(s, n)\<close> from \<open>k\<close> digits on. For a given \<open>k\<close>
  and \<open>n\<close> the numbers \<open>s\<close> that are read back as \<open>x\<close> are consecutive and reach one of the
  two neighbours of \<open>x / 10^(n-k)\<close>, so \<open>digitCandidates\<close> tries these two; \<open>n\<close> is the
  number of digits of \<open>x\<close>, or one more when \<open>x\<close> lies just below a power of ten. With as
  many digits as \<open>x\<close> has, the digits are those of \<open>x\<close> itself.
\<close>

function showDigits :: "int \<Rightarrow> string" where
  "showDigits n =
     (if n < 10 then [char_of (48 + n)] else showDigits (n div 10) @ [char_of (48 + n mod 10)])"
  by pat_completeness auto
termination
  by (relation "measure nat") auto

declare showDigits.simps [simp del]

definition digitCount :: "int \<Rightarrow> int" where
  "digitCount n = int (length (showDigits n))"

definition roundTrips :: "int \<Rightarrow> int \<Rightarrow> int \<times> int \<Rightarrow> bool" where
  "roundTrips x k c =
     (case c of
        (s, n) \<Rightarrow>
          if k \<le> n \<and> powInt 10 (k - 1) \<le> s \<and> s < powInt 10 k
          then toNumber (of_int (s * powInt 10 (n - k))) = Fin (of_int x)
          else False)"

definition digitCandidates :: "int \<Rightarrow> int \<Rightarrow> (int \<times> int) list" where
  "digitCandidates x k =
     filter (roundTrips x k)
       (concat (map (\<lambda>n. [(x div powInt 10 (n - k), n), (x div powInt 10 (n - k) + 1, n)])
                  [digitCount x, digitCount x + 1]))"

definition nearer :: "int \<Rightarrow> int \<Rightarrow> int \<times> int \<Rightarrow> int \<times> int \<Rightarrow> int \<times> int" where
  "nearer x k a b =
     (let da = \<bar>fst a * powInt 10 (snd a - k) - x\<bar>;
          db = \<bar>fst b * powInt 10 (snd b - k) - x\<bar>
      in if db < da \<or> (db = da \<and> odd (fst a) \<and> even (fst b)) then b else a)"

function shortestDigits :: "int \<Rightarrow> int \<Rightarrow> int \<times> int" where
  "shortestDigits x k =
     (if digitCount x \<le> k then (x, digitCount x)
      else (case digitCandidates x k of
              [] \<Rightarrow> shortestDigits x (k + 1)
            | c # cs \<Rightarrow> foldl (nearer x k) c cs))"
  by pat_completeness auto
termination
  by (relation "measure (\<lambda>(x, k). nat (digitCount x - k))") auto

declare shortestDigits.simps [simp del]

definition showMagnitude :: "int \<Rightarrow> string" where
  "showMagnitude x =
     (if x = 0 then ''0''
      else (case shortestDigits x 1 of
              (s, n) \<Rightarrow>
                (let digits = showDigits s;
                     k = int (length digits)
                 in if n \<le> 21 then digits @ replicate (nat (n - k)) (CHR ''0'')
                    else take 1 digits @ (if 1 < k then ''.'' @ drop 1 digits else [])
                         @ ''e+'' @ showDigits (n - 1))))"

definition roundedToString :: "jsnum \<Rightarrow> string" where
  "roundedToString x =
     (case x of
        NaN \<Rightarrow> ''NaN''
      | PInf \<Rightarrow> ''Infinity''
      | NInf \<Rightarrow> ''-Infinity''
      | Fin r \<Rightarrow> if r < 0 then ''-'' @ showMagnitude (- \<lfloor>r\<rfloor>) else showMagnitude \<lfloor>r\<rfloor>)"

section \<open>Percentage difference\<close>

definition parseNumericValue :: "jsval \<Rightarrow> jsnum option" where
  "parseNumericValue v =
     (case v of
        Str s \<Rightarrow>
          (let trimmed = trim s
           in if trimmed = [] then None
              else (let normalized = filter (\<lambda>c. c \<noteq> CHR '','') trimmed;
                        numericValue = Number normalized
                    in if isNaN numericValue then None else Some numericValue))
      | _ \<Rightarrow> None)"

definition computePercentageDiff :: "jsval \<Rightarrow> jsval \<Rightarrow> string" where
  "computePercentageDiff currentValue previousValue =
     (let currentNumber = parseNumericValue currentValue;
          previousNumber = parseNumericValue previousValue
      in if currentNumber = None \<or> previousNumber = None
            \<or> currentNumber = Some (Fin 0) \<or> previousNumber = Some (Fin 0)
         then ''N/A''
         else (let percentValue = js_mul (js_div (js_sub (the currentNumber) (the previousNumber))
                                      (the previousNumber)) (Fin 100);
                   roundedPercent = Math_round percentValue
               in roundedToString roundedPercent @ ''%''))"


section \<open>Exchange rates and conversion to USD\<close>

text \<open>
  \<open>exchangeRatesCache\<close> is an object used as a dictionary from upper-case currency codes to
  rates: a map. \<open>prompt\<close> asks the user; the answers the user will give to the successive
  prompts are a parameter of the model, the function \<open>inputs\<close> from the number of the
  prompt to the text typed, \<open>None\<close> when the user cancels. \<open>answers xs\<close> is the user who
  types the texts of \<open>xs\<close> and cancels every later prompt.
\<close>

type_synonym cache = "string \<Rightarrow> jsnum option"

type_synonym inputs = "nat \<Rightarrow> string option"

definition nextInput :: "inputs \<Rightarrow> string option" where
  "nextInput inputs = inputs 0"

definition laterInputs :: "inputs \<Rightarrow> inputs" where
  "laterInputs inputs = (\<lambda>i. inputs (Suc i))"

definition answers :: "string option list \<Rightarrow> inputs" where
  "answers xs = (\<lambda>i. if i < length xs then xs ! i else None)"

text \<open>
  \<open>promptForExchangeRate\<close>: the first prompt, then the \<open>while\<close> loop (\<open>promptRetry\<close>) that
  asks again as long as the text typed does not parse to a number above zero. A user who
  never types such a text and never cancels keeps the loop running: the loop is a partial
  function, and \<open>None\<close> is the run that does not return.
\<close>

partial_function (option) promptRetry :: "jsnum \<Rightarrow> inputs \<Rightarrow> (jsnum option \<times> inputs) option" where
  "promptRetry rate inputs =
     (if isNaN rate \<or> js_le rate (Fin 0) then
        (case nextInput inputs of
           None \<Rightarrow> Some (None, laterInputs inputs)
         | Some input \<Rightarrow> promptRetry (parseFloat input) (laterInputs inputs))
      else Some (Some rate, inputs))"

definition promptForExchangeRate :: "string \<Rightarrow> inputs \<Rightarrow> (jsnum option \<times> inputs) option" where
  "promptForExchangeRate currencyCode inputs =
     (case nextInput inputs of
        None \<Rightarrow> Some (None, laterInputs inputs)
      | Some input \<Rightarrow> promptRetry (parseFloat input) (laterInputs inputs))"

declare promptRetry.simps [code]

text \<open>
  \<open>x.toFixed(2)\<close>: two decimals, rounded half up on the magnitude; from \<open>10^21\<close> the
  number is printed as \<open>String(x)\<close> prints it.
\<close>

definition toFixed2 :: "jsnum \<Rightarrow> string" where
  "toFixed2 x =
     (case x of
        NaN \<Rightarrow> ''NaN''
      | PInf \<Rightarrow> ''Infinity''
      | NInf \<Rightarrow> ''-Infinity''
      | Fin r \<Rightarrow>
          if 10 ^ 21 \<le> \<bar>r\<bar> then roundedToString (Fin r)
          else (let n = \<lfloor>\<bar>r\<bar> * 100 + 1 / 2\<rfloor>;
                    ds = showDigits n;
                    padded = replicate (3 - length ds) CHR ''0'' @ ds
                in (if r < 0 then ''-'' else []) @ take (length padded - 2) padded @ ''.''
                   @ drop (length padded - 2) padded))"

text \<open>
  \<open>!rate\<close> is false for the numbers other than \<open>NaN\<close> and zero. \<open>parseFloat(amount)\<close> of a
  number is that number (\<open>String\<close> prints a number so that it reads back as itself), of
  \<open>null\<close> and \<open>undefined\<close> it is \<open>NaN\<close>.
\<close>

definition truthyNumber :: "jsnum \<Rightarrow> bool" where
  "truthyNumber x = (x \<noteq> NaN \<and> x \<noteq> Fin 0)"

definition parseFloatValue :: "jsval \<Rightarrow> jsnum" where
  "parseFloatValue v = (case v of Num n \<Rightarrow> n | Str s \<Rightarrow> parseFloat s | _ \<Rightarrow> NaN)"

text \<open>
  \<open>convertToUSD(amount, currency)\<close> returns the converted amount, a number or a status
  text, with the cache and the remaining answers of the user. The currency is a text or
  \<open>null\<close>.
\<close>

definition convertToUSD ::
  "jsval \<Rightarrow> string option \<Rightarrow> cache \<Rightarrow> inputs \<Rightarrow> (jsval \<times> cache \<times> inputs) option" where
  "convertToUSD amount currency cache inputs =
     (if amount = Null \<or> amount = Undefined \<or> amount = Str [] then Some (Str '' '', cache, inputs)
      else if currency = None \<or> currency = Some [] then Some (Str ''N/A'', cache, inputs)
      else
        (let numericAmount = parseFloatValue amount
         in if isNaN numericAmount then Some (Str ''Invalid Amount'', cache, inputs)
            else
              (let upperCaseCurrency = toUpperCase (the currency)
               in if upperCaseCurrency = ''USD'' then Some (Num numericAmount, cache, inputs)
                  else
                    (case (case cache upperCaseCurrency of
                             None \<Rightarrow> None
                           | Some r \<Rightarrow> if truthyNumber r then Some r else None) of
                       Some rate \<Rightarrow> Some (Num (js_div numericAmount rate), cache, inputs)
                     | None \<Rightarrow>
                         (case promptForExchangeRate upperCaseCurrency inputs of
                            None \<Rightarrow> None
                          | Some (None, inputs') \<Rightarrow>
                              Some (Str (toFixed2 numericAmount @ '' '' @ upperCaseCurrency
                                      @ '' (Rate needed)''), cache, inputs')
                          | Some (Some rate, inputs') \<Rightarrow>
                              if truthyNumber rate then
                                Some (Num (js_div numericAmount rate),
                                      cache(upperCaseCurrency \<mapsto> rate), inputs')
                              else
                                Some (Str (toFixed2 numericAmount @ '' '' @ upperCaseCurrency
                                        @ '' (No Rate)''),
                                      cache(upperCaseCurrency \<mapsto> rate), inputs'))))))"

text \<open>
  A rate above zero: a positive finite number or \<open>+Infinity\<close>; a cache that holds only
  such rates.
\<close>

definition positiveRate :: "jsnum \<Rightarrow> bool" where
  "positiveRate r = (case r of PInf \<Rightarrow> True | Fin q \<Rightarrow> 0 < q | _ \<Rightarrow> False)"

definition positiveCache :: "cache \<Rightarrow> bool" where
  "positiveCache cache = (\<forall>k r. cache k = Some r \<longrightarrow> positiveRate r)"



text \<open>Reading a result of \<open>convertToUSD\<close>: the value returned, and the rate cached for a currency.\<close>

definition convertedValue :: "(jsval \<times> cache \<times> inputs) option \<Rightarrow> jsval option" where
  "convertedValue result = map_option fst result"

definition cachedRateAfter :: "string \<Rightarrow> (jsval \<times> cache \<times> inputs) option \<Rightarrow> jsnum option" where
  "cachedRateAfter code result = (case result of None \<Rightarrow> None | Some (v, cache, inputs) \<Rightarrow> cache code)"
section \<open>Messages and the seller store\<close>

text \<open>
  The decoded messages, with the fields the report combiner reads. A text field is
  \<open>null\<close> (\<open>None\<close>) when its element is missing from the document, a number field is
  \<open>null\<close> when the element is missing or empty. \<open>MSG01\<close> is the seller agreement; a
  transactional message is an \<open>MSG02\<close>, \<open>MSG05\<close> or \<open>MSG07\<close>, told apart by its details
  section: \<open>prelCreditAssessDetails\<close>, \<open>creditCoverDetails\<close>, or the pair
  \<open>currentCreditCoverDetails\<close> (its currency) and \<open>newCreditCoverDetails\<close> (\<open>CreditCoverUpdate\<close>).
  The buyer of an \<open>MSG07\<close> has no \<open>Country\<close> and no \<open>DirectContact\<close>: they are
  \<open>undefined\<close> there.
\<close>

record msgInfo =
  SenderCode :: "string option"
  SequenceNr :: "jsnum option"
  DateTime :: "string option"

record factor =
  FactorCode :: "string option"
  FactorName :: "string option"

record seller =
  SellerNr :: "string option"
  SellerName :: "string option"

record buyer =
  BuyerName :: "string option"
  Country :: jsval
  DirectContact :: jsval

record sellerDetails =
  BusinessProduct :: "string option"

datatype details =
    PrelCreditAssessDetails (AmtCreditAssessReq: "jsnum option") (Currency: "string option")
      (NetPmtTerms: "jsnum option")
  | CreditCoverDetails (NewCreditCoverAmt: "jsnum option") (Currency: "string option")
      (NetPmtTerms: "jsnum option")
  | CreditCoverUpdate (Currency: "string option") (NewCreditCoverAmt: "jsnum option")
      (LongCreditPeriodDays: "jsnum option")

record message =
  MsgInfo :: msgInfo
  EF :: factor
  Seller :: seller

record MSG01 = message +
  SellerDetails :: sellerDetails

record transactional = message +
  Buyer :: buyer
  RequestDate :: "string option"
  MsgText :: string
  Details :: details

definition msgType :: "transactional \<Rightarrow> string" where
  "msgType msg =
     (case Details msg of
        PrelCreditAssessDetails a c t \<Rightarrow> ''MSG02''
      | CreditCoverDetails a c t \<Rightarrow> ''MSG05''
      | CreditCoverUpdate c a t \<Rightarrow> ''MSG07'')"

text \<open>
  The join key is the template \<open>SenderCode_SellerNr\<close>, where \<open>null\<close> prints as the text
  \<open>null\<close>. \<open>allMsg01s\<close> is a \<open>Map\<close>: an association list in insertion order, where
  \<open>set\<close> replaces the value of a key that is present and appends a new key.
\<close>

definition textOrNull :: "string option \<Rightarrow> string" where
  "textOrNull t = (case t of None \<Rightarrow> ''null'' | Some s \<Rightarrow> s)"

definition joinKey :: "'a message_scheme \<Rightarrow> string" where
  "joinKey msg = textOrNull (SenderCode (MsgInfo msg)) @ ''_'' @ textOrNull (SellerNr (Seller msg))"

type_synonym sellerStore = "(string \<times> MSG01) list"

definition storeSet :: "string \<Rightarrow> MSG01 \<Rightarrow> sellerStore \<Rightarrow> sellerStore" where
  "storeSet key instance store = AList.update key instance store"

definition storeGet :: "sellerStore \<Rightarrow> string \<Rightarrow> MSG01 option" where
  "storeGet store key = map_of store key"

section \<open>Report combiner\<close>

text \<open>
  A display row, with the fields that the combiner fills from the messages. The thirteen
  fields that every row holds as the constant \<open>No\<close> or the empty text are left out.
  The field \<open>term\<close> is named \<open>termValue\<close>.
\<close>

record displayRow =
  sequenceNr :: jsval
  requestDate :: string
  dateReceived :: string
  buyerName :: "string option"
  buyerCountry :: string
  sellerName :: "string option"
  sellerCountry :: string
  partnerName :: "string option"
  partnerCountry :: string
  messageType :: string
  amountReq :: jsval
  currency :: "string option"
  termValue :: jsval
  contactAllowed :: string
  incomingComments :: string
  creditManager :: string
  aeCso :: string
  industryProduct :: "string option"
  clientCode :: "string option"
  amountReqUSD :: jsval

definition numberOrNull :: "jsnum option \<Rightarrow> jsval" where
  "numberOrNull n = (case n of None \<Rightarrow> Null | Some x \<Rightarrow> Num x)"

definition textOrEmpty :: "string option \<Rightarrow> string" where
  "textOrEmpty t = (case t of None \<Rightarrow> [] | Some s \<Rightarrow> s)"

text \<open>
  \<open>Intl.DisplayNames.of\<close> for regions throws a \<open>RangeError\<close> unless the code is two
  letters or three digits; the table of region names is a parameter.
\<close>

definition isAsciiLetter :: "char \<Rightarrow> bool" where
  "isAsciiLetter c =
     (let n = (of_char c :: nat) in (65 \<le> n \<and> n \<le> 90) \<or> (97 \<le> n \<and> n \<le> 122))"

definition isRegionSubtag :: "string \<Rightarrow> bool" where
  "isRegionSubtag code =
     ((length code = 2 \<and> list_all isAsciiLetter code) \<or> (length code = 3 \<and> list_all isDigit code))"

definition regionNames_of :: "(string \<Rightarrow> string) \<Rightarrow> string \<Rightarrow> jserror + string" where
  "regionNames_of names code =
     (if isRegionSubtag code then Inr (names (toUpperCase code)) else Inl RangeError)"

definition getCreditManager :: "string \<Rightarrow> jsval \<Rightarrow> string option \<Rightarrow> jserror + string" where
  "getCreditManager countryCode creditLine factorName =
     (let numericCreditLine = parseFloatValue creditLine
      in if isNaN numericCreditLine then Inr ''N/A''
         else if js_le numericCreditLine (Fin 500000) then Inr ''lux''
         else if countryCode \<in> set [''AM'', ''EG'', ''GR'', ''IN'', ''MT'', ''RO'', ''TW'', ''TR'', ''VN'']
           then Inr ''trey''
         else if countryCode \<in> set [''SG'', ''JP'', ''US''] then
           (case factorName of
              None \<Rightarrow> Inl TypeError
            | Some name \<Rightarrow>
                if countryCode = ''SG'' \<and> includesStr name ''Mogli'' then Inr ''trey''
                else if countryCode = ''JP''
                    \<and> (includesStr name ''Mitsubishi'' \<or> includesStr name ''Sumitomo Mitsui'')
                  then Inr ''trey''
                else if countryCode = ''US'' \<and> includesStr name ''Standard Chartered Bank New York''
                  then Inr ''trey''
                else Inr ''bost'')
         else Inr ''bost'')"

definition getAccountExecutive :: "string \<Rightarrow> string option \<Rightarrow> string" where
  "getAccountExecutive countryCode factorName =
     (let factorNameUpper = toUpperCase (textOrNull factorName);
          countryCodeUpper = toUpperCase countryCode
      in if countryCodeUpper = ''MX'' \<and> includesStr factorNameUpper ''BANCOMEX'' then ''Mary Farley''
         else if countryCodeUpper = ''MX'' \<and> includesStr factorNameUpper ''BANCO MONEX'' then ''Tyler Sigler''
         else if countryCodeUpper = ''IN''
             \<and> (includesStr factorNameUpper ''INDIA FACTORING'' \<or> includesStr factorNameUpper ''SBI GLOBAL'')
           then ''Tammie Cosey''
         else if countryCodeUpper = ''IN''
             \<and> (includesStr factorNameUpper ''ICICI BANK'' \<or> includesStr factorNameUpper ''INDIA EXIM'')
           then ''James Vuu''
         else if countryCodeUpper = ''IN''
             \<and> (includesStr factorNameUpper ''ECGC'' \<or> includesStr factorNameUpper ''YES BANK'')
           then ''Tyler Sigler''
         else if countryCodeUpper = ''US''
             \<and> includesStr factorNameUpper ''STANDARD CHARTERED BANK NEW YORK''
           then ''Mary Farley''
         else if countryCodeUpper = ''SG'' then
           (if includesStr factorNameUpper ''MOGLI LABS'' then ''Tammie Cosey'' else ''James Vuu'')
         else if includesStr factorNameUpper ''SKYTEX'' \<or> includesStr factorNameUpper ''GLOBAL DENIM''
           then ''Mary Farley''
         else if countryCodeUpper \<in> set [''AR'', ''BD'', ''CA'', ''CL'', ''CN'', ''DO'', ''SV'', ''GT'',
             ''HN'', ''HK'', ''HU'', ''IT'', ''MU'', ''PK'', ''PT'', ''UY'']
           then ''Mary Farley''
         else if countryCodeUpper \<in> set [''AM'', ''BG'', ''HR'', ''CY'', ''CZ'', ''EG'', ''GR'', ''MT'',
             ''MA'', ''RS'', ''SK'', ''SI'', ''TN'', ''TR'']
           then ''Tammie Cosey''
         else if countryCodeUpper \<in> set [''ID'', ''JP'', ''KP'', ''KR'', ''MY'', ''PL'', ''ES'', ''LK'',
             ''TH'', ''AE'', ''VN'']
           then ''James Vuu''
         else if countryCodeUpper \<in> set [''BR'', ''CO'', ''CR'', ''FR'', ''DE'', ''MD'', ''PE'', ''RO'', ''TW'']
           then ''Tyler Sigler''
         else '' '')"

text \<open>
  The body of the loop of \<open>generateCombinedDisplayData\<close> for one message: the row, or the
  exception that leaves the loop, with the state of the cache and of the prompts.
  \<open>msg.ef.FactorCode.substring(0, 2)\<close> throws a \<open>TypeError\<close> when the code is \<open>null\<close>.
\<close>

text \<open>
  The fields that vary with the message type: requested amount, currency and term.
\<close>

definition amountReqOf :: "transactional \<Rightarrow> jsval" where
  "amountReqOf msg =
     (case Details msg of
        PrelCreditAssessDetails a c t \<Rightarrow> numberOrNull a
      | CreditCoverDetails a c t \<Rightarrow> numberOrNull a
      | CreditCoverUpdate c a t \<Rightarrow> numberOrNull a)"

definition currencyOf :: "transactional \<Rightarrow> string option" where
  "currencyOf msg =
     (case Details msg of
        PrelCreditAssessDetails a c t \<Rightarrow> c
      | CreditCoverDetails a c t \<Rightarrow> c
      | CreditCoverUpdate c a t \<Rightarrow> c)"

definition termOf :: "transactional \<Rightarrow> jsval" where
  "termOf msg =
     (case Details msg of
        PrelCreditAssessDetails a c t \<Rightarrow> numberOrNull t
      | CreditCoverDetails a c t \<Rightarrow> numberOrNull t
      | CreditCoverUpdate c a t \<Rightarrow> numberOrNull t)"

definition looseEqualsOne :: "jsval \<Rightarrow> bool" where
  "looseEqualsOne v = (case v of Num n \<Rightarrow> n = Fin 1 | Str s \<Rightarrow> Number s = Fin 1 | _ \<Rightarrow> False)"

definition buildRow ::
  "(string \<Rightarrow> string) \<Rightarrow> sellerStore \<Rightarrow> transactional \<Rightarrow> cache \<Rightarrow> inputs
     \<Rightarrow> ((jserror + displayRow) \<times> cache \<times> inputs) option" where
  "buildRow names allMsg01s msg cache inputs =
     (let key = joinKey msg;
          matchedMsg01 = storeGet allMsg01s key;
          row = \<lparr>sequenceNr =
                   (case SequenceNr (MsgInfo msg) of
                      None \<Rightarrow> Str []
                    | Some n \<Rightarrow> if truthyNumber n then Num n else Str []),
                 requestDate = textOrEmpty (RequestDate msg),
                 dateReceived =
                   (case DateTime (MsgInfo msg) of
                      None \<Rightarrow> []
                    | Some d \<Rightarrow> take 10 d),
                 buyerName = BuyerName (Buyer msg),
                 buyerCountry = (case Country (Buyer msg) of Str s \<Rightarrow> s | _ \<Rightarrow> []),
                 sellerName = SellerName (Seller msg),
                 sellerCountry = [],
                 partnerName = FactorName (EF msg),
                 partnerCountry = [],
                 messageType = drop (length (msgType msg) - 1) (msgType msg),
                 amountReq = amountReqOf msg,
                 currency = currencyOf msg,
                 termValue = termOf msg,
                 contactAllowed =
                   (case Details msg of
                      CreditCoverUpdate c a t \<Rightarrow> ''No''
                    | _ \<Rightarrow> if looseEqualsOne (DirectContact (Buyer msg)) then ''Yes'' else ''No''),
                 incomingComments = MsgText msg,
                 creditManager = [],
                 aeCso = [],
                 industryProduct =
                   (case matchedMsg01 of
                      None \<Rightarrow> Some []
                    | Some m \<Rightarrow> BusinessProduct (SellerDetails m)),
                 clientCode = FactorCode (EF msg),
                 amountReqUSD = Str []\<rparr>
      in case FactorCode (EF msg) of
           None \<Rightarrow> Some (Inl TypeError, cache, inputs)
         | Some code \<Rightarrow>
             (let exportFactorCodeCharacters = substring code 0 2
              in case (if exportFactorCodeCharacters = [] then Inr []
                       else regionNames_of names exportFactorCodeCharacters) of
                   Inl e \<Rightarrow> Some (Inl e, cache, inputs)
                 | Inr country \<Rightarrow>
                     (case convertToUSD (amountReq row) (currency row) cache inputs of
                        None \<Rightarrow> None
                      | Some (usd, cache', inputs') \<Rightarrow>
                          (case getCreditManager exportFactorCodeCharacters usd (partnerName row) of
                             Inl e \<Rightarrow> Some (Inl e, cache', inputs')
                           | Inr manager \<Rightarrow>
                               Some (Inr (row\<lparr>partnerCountry := country,
                                            sellerCountry := country,
                                            amountReqUSD := usd,
                                            creditManager := manager,
                                            aeCso := getAccountExecutive exportFactorCodeCharacters
                                                       (partnerName row)\<rparr>),
                                     cache', inputs')))))"

fun buildRows ::
  "(string \<Rightarrow> string) \<Rightarrow> sellerStore \<Rightarrow> transactional list \<Rightarrow> cache \<Rightarrow> inputs
     \<Rightarrow> ((jserror + displayRow list) \<times> cache \<times> inputs) option" where
  "buildRows names allMsg01s [] cache inputs = Some (Inr [], cache, inputs)"
| "buildRows names allMsg01s (msg # msgs) cache inputs =
     (case buildRow names allMsg01s msg cache inputs of
        None \<Rightarrow> None
      | Some (Inl e, cache', inputs') \<Rightarrow> Some (Inl e, cache', inputs')
      | Some (Inr row, cache', inputs') \<Rightarrow>
          (case buildRows names allMsg01s msgs cache' inputs' of
             None \<Rightarrow> None
           | Some (Inl e, cache'', inputs'') \<Rightarrow> Some (Inl e, cache'', inputs'')
           | Some (Inr rows, cache'', inputs'') \<Rightarrow> Some (Inr (row # rows), cache'', inputs'')))"

text \<open>
  The final sort. \<open>new Date(text)\<close> is a parameter: \<open>dateValue\<close> gives the time value of a
  text, \<open>None\<close> for an invalid date. The comparator is the difference of the two time
  values, \<open>NaN\<close> when one of them is invalid, which \<open>sort\<close> reads as \<open>+0\<close>. ECMAScript
  fixes the result of \<open>sort\<close> only for a consistent comparator, where it is the stable
  sort; \<open>arraySort\<close> is the stable insertion sort.
\<close>

definition timeValue :: "(string \<Rightarrow> int option) \<Rightarrow> string \<Rightarrow> jsnum" where
  "timeValue dateValue s = (case dateValue s of None \<Rightarrow> NaN | Some t \<Rightarrow> Fin (of_int t))"

definition compareDates :: "(string \<Rightarrow> int option) \<Rightarrow> displayRow \<Rightarrow> displayRow \<Rightarrow> jsnum" where
  "compareDates dateValue a b =
     js_sub (timeValue dateValue (dateReceived a)) (timeValue dateValue (dateReceived b))"

definition comparatorPositive :: "jsnum \<Rightarrow> bool" where
  "comparatorPositive v = (case v of NaN \<Rightarrow> False | PInf \<Rightarrow> True | NInf \<Rightarrow> False | Fin r \<Rightarrow> 0 < r)"

fun insertSorted :: "('a \<Rightarrow> 'a \<Rightarrow> jsnum) \<Rightarrow> 'a \<Rightarrow> 'a list \<Rightarrow> 'a list" where
  "insertSorted cmp x [] = [x]"
| "insertSorted cmp x (y # ys) =
     (if comparatorPositive (cmp x y) then y # insertSorted cmp x ys else x # y # ys)"

definition arraySort :: "('a \<Rightarrow> 'a \<Rightarrow> jsnum) \<Rightarrow> 'a list \<Rightarrow> 'a list" where
  "arraySort cmp xs = foldr (insertSorted cmp) xs []"

definition generateCombinedDisplayData ::
  "(string \<Rightarrow> string) \<Rightarrow> (string \<Rightarrow> int option) \<Rightarrow> sellerStore
     \<Rightarrow> transactional list \<Rightarrow> transactional list \<Rightarrow> transactional list \<Rightarrow> cache \<Rightarrow> inputs
     \<Rightarrow> ((jserror + displayRow list) \<times> cache \<times> inputs) option" where
  "generateCombinedDisplayData names dateValue allMsg01s allMsg02s allMsg05s allMsg07s cache inputs =
     (case buildRows names allMsg01s (allMsg02s @ allMsg05s @ allMsg07s) cache inputs of
        None \<Rightarrow> None
      | Some (Inl e, cache', inputs') \<Rightarrow> Some (Inl e, cache', inputs')
      | Some (Inr combinedData, cache', inputs') \<Rightarrow>
          Some (Inr (arraySort (compareDates dateValue) combinedData), cache', inputs'))"

text \<open>
  Reading a result of the combiner: adding a row in front of the rows of the later
  messages, as the loop does.
\<close>

definition prependRow ::
  "displayRow \<Rightarrow> ((jserror + displayRow list) \<times> cache \<times> inputs) option
     \<Rightarrow> ((jserror + displayRow list) \<times> cache \<times> inputs) option" where
  "prependRow row result =
     (case result of
        None \<Rightarrow> None
      | Some (Inl e, cache, inputs) \<Rightarrow> Some (Inl e, cache, inputs)
      | Some (Inr rows, cache, inputs) \<Rightarrow> Some (Inr (row # rows), cache, inputs))"

text \<open>
  A date parser for the examples: the date-only ISO form \<open>YYYY-MM-DD\<close>, as milliseconds
  since the epoch; any other text is no date.
\<close>

definition daysFromCivil :: "int \<Rightarrow> int \<Rightarrow> int \<Rightarrow> int" where
  "daysFromCivil y m d =
     (let y' = (if m \<le> 2 then y - 1 else y);
          era = y' div 400;
          yoe = y' - era * 400;
          doy = (153 * (if 2 < m then m - 3 else m + 9) + 2) div 5 + d - 1;
          doe = yoe * 365 + yoe div 4 - yoe div 100 + doy
      in era * 146097 + doe - 719468)"

definition daysInMonth :: "int \<Rightarrow> int \<Rightarrow> int" where
  "daysInMonth y m =
     (if m = 2 then (if y mod 4 = 0 \<and> (y mod 100 \<noteq> 0 \<or> y mod 400 = 0) then 29 else 28)
      else if m = 4 \<or> m = 6 \<or> m = 9 \<or> m = 11 then 30 else 31)"

definition isoDateValue :: "string \<Rightarrow> int option" where
  "isoDateValue s =
     (let ys = take 4 s; ms = take 2 (drop 5 s); ds = take 2 (drop 8 s);
          y = digitsValue 10 ys; m = digitsValue 10 ms; d = digitsValue 10 ds
      in if length s = 10 \<and> take 1 (drop 4 s) = ''-'' \<and> take 1 (drop 7 s) = ''-''
            \<and> list_all isDigit (ys @ ms @ ds)
            \<and> 1 \<le> m \<and> m \<le> 12 \<and> 1 \<le> d \<and> d \<le> daysInMonth y m
         then Some (daysFromCivil y m d * 86400000)
         else None)"

text \<open>Sample messages.\<close>

definition sampleRequest :: "string option \<Rightarrow> string option \<Rightarrow> jsnum option \<Rightarrow> string option \<Rightarrow> transactional" where
  "sampleRequest dateTime sellerNr amount cur =
     \<lparr>MsgInfo = \<lparr>SenderCode = Some ''F1'', SequenceNr = Some (Fin 7), DateTime = dateTime\<rparr>,
      EF = \<lparr>FactorCode = Some ''TR0001'', FactorName = Some ''Export Factor A.S.''\<rparr>,
      Seller = \<lparr>SellerNr = sellerNr, SellerName = Some ''Seller Ltd''\<rparr>,
      Buyer = \<lparr>BuyerName = Some ''Buyer Inc'', Country = Str ''US'', DirectContact = Num (Fin 1)\<rparr>,
      RequestDate = Some ''2024-01-01'',
      MsgText = [],
      Details = CreditCoverDetails amount cur (Some (Fin 60))\<rparr>"

definition sampleAgreement :: MSG01 where
  "sampleAgreement =
     \<lparr>MsgInfo = \<lparr>SenderCode = Some ''F1'', SequenceNr = Some (Fin 1), DateTime = Some ''2023-12-01T08:00:00''\<rparr>,
      EF = \<lparr>FactorCode = Some ''TR0001'', FactorName = Some ''Export Factor A.S.''\<rparr>,
      Seller = \<lparr>SellerNr = Some ''S9'', SellerName = Some ''Seller Ltd''\<rparr>,
      SellerDetails = \<lparr>BusinessProduct = Some ''Textiles''\<rparr>\<rparr>"
section \<open>Facts about the string functions\<close>

lemma indexOf_None_iff: "indexOf s p = None \<longleftrightarrow> \<not> sublist p s"
  by (induction s) (auto simp: sublist_Cons_right)

lemma includes_sublist: "includesStr s p \<longleftrightarrow> sublist p s"
  by (simp add: includesStr_def indexOf_None_iff)

lemma splitLines_nonempty: "splitLines s \<noteq> []"
  by (induction s) (auto split: list.splits)

lemma toUpperCase_append: "toUpperCase (s @ t) = toUpperCase s @ toUpperCase t"
  by (simp add: toUpperCase_def)

lemma toUpperCase_single: "toUpperCase [c] = toUpperChar c"
  by (simp add: toUpperCase_def)

lemma sublist_toUpperCase_mono:
  assumes "sublist p s"
  shows "sublist (toUpperCase p) (toUpperCase s)"
proof -
  from assms obtain xs ys where "s = xs @ p @ ys"
    by (auto simp: sublist_def)
  then have "toUpperCase s = toUpperCase xs @ toUpperCase p @ toUpperCase ys"
    by (simp add: toUpperCase_append)
  then show ?thesis
    by (auto simp: sublist_def)
qed

lemma sublist_toUpperCase:
  assumes "sublist p s" and "toUpperCase p = p"
  shows "sublist p (toUpperCase s)"
  using sublist_toUpperCase_mono [OF assms(1)] assms(2) by simp

section \<open>The classifier reads the third line\<close>

text \<open>
  C4 (as the code has it). The classifier looks at line 2 (counting from 0) of the text
  split at line breaks, after converting that line to upper case: it answers Volume (0)
  when the upper-cased line contains VOLUME, else Commission (1) when the upper-cased line
  contains COMMISSION, else Unknown (null); a text of fewer than three lines is Unknown.
  The function is total, so no input makes it fail. A third line that contains the
  literal token VOLUME is always classified as Volume, and one that contains the literal
  token COMMISSION is classified as Commission unless its upper-casing contains VOLUME.

  The upper-casing is the one of the language: it works code unit by code unit (the
  upper-casing of a text that contains a token contains the upper-cased token), it maps
  \<open>a\<close> to \<open>z\<close> to \<open>A\<close> to \<open>Z\<close>, the sharp s 0xDF to \<open>SS\<close> and the letters 0xE0 to 0xFE other
  than 0xF7 to the code unit 32 below, and it leaves as they are the other code units
  (the micro sign 0xB5 and the y with diaeresis 0xFF aside, whose capitals are not below
  256). So the third line \<open>commi\<close>, sharp s, \<open>ion\<close> is classified as Commission.
\<close>

theorem validateDataUpload_third_line:
  "validateDataUpload content =
     (if length (splitLines content) < 3 then None
      else if sublist ''VOLUME'' (toUpperCase (splitLines content ! 2)) then Some 0
      else if sublist ''COMMISSION'' (toUpperCase (splitLines content ! 2)) then Some 1
      else None)
   \<and> (3 \<le> length (splitLines content) \<and> sublist ''VOLUME'' (splitLines content ! 2)
        \<longrightarrow> validateDataUpload content = Some 0)
   \<and> (3 \<le> length (splitLines content) \<and> sublist ''COMMISSION'' (splitLines content ! 2)
        \<and> \<not> sublist ''VOLUME'' (toUpperCase (splitLines content ! 2))
        \<longrightarrow> validateDataUpload content = Some 1)
   \<and> toUpperCase (s @ t) = toUpperCase s @ toUpperCase t
   \<and> (sublist t s \<longrightarrow> sublist (toUpperCase t) (toUpperCase s))
   \<and> toUpperCase ''abcdefghijklmnopqrstuvwxyz'' = ''ABCDEFGHIJKLMNOPQRSTUVWXYZ''
   \<and> toUpperCase [CHR 0xDF] = ''SS''
   \<and> (224 \<le> (of_char c :: nat) \<and> (of_char c :: nat) \<le> 254 \<and> (of_char c :: nat) \<noteq> 247
        \<longrightarrow> toUpperCase [c] = [char_of ((of_char c :: nat) - 32)])
   \<and> (\<not> (97 \<le> (of_char c :: nat) \<and> (of_char c :: nat) \<le> 122)
        \<and> \<not> (223 \<le> (of_char c :: nat) \<and> (of_char c :: nat) \<noteq> 247)
        \<and> (of_char c :: nat) \<noteq> 181
        \<longrightarrow> toUpperCase [c] = [c])
   \<and> validateDataUpload (''DAILY'' @ [LF] @ ''PAGE 1'' @ [LF] @ ''commi'' @ [CHR 0xDF] @ ''ion'') = Some 1"
proof -
  have up: "toUpperCase ''VOLUME'' = ''VOLUME''" "toUpperCase ''COMMISSION'' = ''COMMISSION''"
    by code_simp+
  have 1: "validateDataUpload content =
     (if length (splitLines content) < 3 then None
      else if sublist ''VOLUME'' (toUpperCase (splitLines content ! 2)) then Some 0
      else if sublist ''COMMISSION'' (toUpperCase (splitLines content ! 2)) then Some 1
      else None)"
    by (auto simp: validateDataUpload_def Let_def includes_sublist)
  have 2: "3 \<le> length (splitLines content) \<and> sublist ''VOLUME'' (splitLines content ! 2)
        \<longrightarrow> validateDataUpload content = Some 0"
    using sublist_toUpperCase [OF _ up(1)] by (auto simp: 1)
  have 3: "3 \<le> length (splitLines content) \<and> sublist ''COMMISSION'' (splitLines content ! 2)
        \<and> \<not> sublist ''VOLUME'' (toUpperCase (splitLines content ! 2))
        \<longrightarrow> validateDataUpload content = Some 1"
    using sublist_toUpperCase [OF _ up(2)] by (auto simp: 1)
  have 4: "toUpperCase (s @ t) = toUpperCase s @ toUpperCase t"
    by (rule toUpperCase_append)
  have 5: "sublist t s \<longrightarrow> sublist (toUpperCase t) (toUpperCase s)"
    by (simp add: sublist_toUpperCase_mono)
  have 6: "toUpperCase ''abcdefghijklmnopqrstuvwxyz'' = ''ABCDEFGHIJKLMNOPQRSTUVWXYZ''"
    and 7: "toUpperCase [CHR 0xDF] = ''SS''"
    by code_simp+
  have 8: "224 \<le> (of_char c :: nat) \<and> (of_char c :: nat) \<le> 254 \<and> (of_char c :: nat) \<noteq> 247
        \<longrightarrow> toUpperCase [c] = [char_of ((of_char c :: nat) - 32)]"
    by (simp add: toUpperCase_single toUpperChar_def Let_def)
  have 9: "\<not> (97 \<le> (of_char c :: nat) \<and> (of_char c :: nat) \<le> 122)
        \<and> \<not> (223 \<le> (of_char c :: nat) \<and> (of_char c :: nat) \<noteq> 247)
        \<and> (of_char c :: nat) \<noteq> 181
        \<longrightarrow> toUpperCase [c] = [c]"
    by (auto simp: toUpperCase_single toUpperChar_def Let_def)
  have 10: "validateDataUpload (''DAILY'' @ [LF] @ ''PAGE 1'' @ [LF] @ ''commi'' @ [CHR 0xDF] @ ''ion'') = Some 1"
    by code_simp
  from 1 2 3 4 5 6 7 8 9 10 show ?thesis
    by (intro conjI)
qed

text \<open>
  A report whose third line reads \<open>MONTHLY VOLUME REPORT\<close> is a Volume report, one whose
  third line reads \<open>Commission Summary\<close> in mixed case a Commission report; the letter
  0xE9 is mapped to 0xC9 and the digit \<open>7\<close> to itself.
\<close>

theorem validateDataUpload_third_line_witness:
  "validateDataUpload (''DAILY'' @ [LF] @ ''PAGE 1'' @ [LF] @ ''MONTHLY VOLUME REPORT'') = Some 0
   \<and> sublist ''COMMISSION'' (toUpperCase ''Commission Summary'')
   \<and> toUpperCase [CHR 0xE9] = [CHR 0xC9]
   \<and> toUpperCase ''7'' = ''7''"
proof -
  have h: "3 \<le> length (splitLines (''DAILY'' @ [LF] @ ''PAGE 1'' @ [LF] @ ''MONTHLY VOLUME REPORT''))
      \<and> sublist ''VOLUME''
          (splitLines (''DAILY'' @ [LF] @ ''PAGE 1'' @ [LF] @ ''MONTHLY VOLUME REPORT'') ! 2)"
    by code_simp
  have t: "sublist ''Commission'' ''Commission Summary''"
    and u: "toUpperCase ''Commission'' = ''COMMISSION''"
    by code_simp+
  have e: "224 \<le> (of_char (CHR 0xE9) :: nat) \<and> (of_char (CHR 0xE9) :: nat) \<le> 254
      \<and> (of_char (CHR 0xE9) :: nat) \<noteq> 247"
    and e': "char_of ((of_char (CHR 0xE9) :: nat) - 32) = CHR 0xC9"
    by code_simp+
  have d: "\<not> (97 \<le> (of_char (CHR ''7'') :: nat) \<and> (of_char (CHR ''7'') :: nat) \<le> 122)
        \<and> \<not> (223 \<le> (of_char (CHR ''7'') :: nat) \<and> (of_char (CHR ''7'') :: nat) \<noteq> 247)
        \<and> (of_char (CHR ''7'') :: nat) \<noteq> 181"
    by code_simp
  note thm1 = validateDataUpload_third_line
      [of "''DAILY'' @ [LF] @ ''PAGE 1'' @ [LF] @ ''MONTHLY VOLUME REPORT''"
          "''Commission Summary''" "''Commission''" "CHR 0xE9"]
  note thm2 = validateDataUpload_third_line
      [of "''DAILY'' @ [LF] @ ''PAGE 1'' @ [LF] @ ''MONTHLY VOLUME REPORT''"
          "''Commission Summary''" "''Commission''" "CHR ''7''"]
  from thm1 h have 1: "validateDataUpload (''DAILY'' @ [LF] @ ''PAGE 1'' @ [LF] @ ''MONTHLY VOLUME REPORT'') = Some 0"
    by blast
  from thm1 t u have 2: "sublist ''COMMISSION'' (toUpperCase ''Commission Summary'')"
    by metis
  from thm1 e e' have 3: "toUpperCase [CHR 0xE9] = [CHR 0xC9]"
    by metis
  from thm2 d have 4: "toUpperCase ''7'' = ''7''"
    by blast
  from 1 2 3 4 show ?thesis
    by (intro conjI)
qed

text \<open>
  C4 as stated fails: the third line \<open>commission report\<close> contains neither the literal
  token VOLUME nor the literal token COMMISSION, so the claim makes the text Unknown, but
  the code upper-cases the line first and answers Commission (1).
\<close>

theorem validateDataUpload_lowercase_counterexample:
  "splitLines (''DAILY'' @ [LF] @ ''PAGE 1'' @ [LF] @ ''commission report'') ! 2 = ''commission report''
   \<and> \<not> sublist ''VOLUME'' ''commission report''
   \<and> \<not> sublist ''COMMISSION'' ''commission report''
   \<and> validateDataUpload (''DAILY'' @ [LF] @ ''PAGE 1'' @ [LF] @ ''commission report'') = Some 1"
  by code_simp
section \<open>Facts about the locator\<close>

lemma indexOf_Some_iff:
  "indexOf s p = Some k \<longleftrightarrow>
     k \<le> length s \<and> prefix p (drop k s) \<and> (\<forall>j<k. \<not> prefix p (drop j s))"
proof (induction s arbitrary: k)
  case Nil
  then show ?case by auto
next
  case (Cons c cs)
  show ?case
  proof (cases "prefix p (c # cs)")
    case True
    show ?thesis
    proof (cases k)
      case 0
      with True show ?thesis by simp
    next
      case (Suc m)
      have "\<not> (\<forall>j<k. \<not> prefix p (drop j (c # cs)))"
        using True Suc by (intro notI) (drule spec [of _ 0], simp)
      moreover have "indexOf (c # cs) p \<noteq> Some k"
        using True Suc by simp
      ultimately show ?thesis by blast
    qed
  next
    case False
    show ?thesis
    proof (cases k)
      case 0
      with False show ?thesis by simp
    next
      case (Suc m)
      have "indexOf (c # cs) p = Some k \<longleftrightarrow> indexOf cs p = Some m"
        using False Suc by auto
      also have "\<dots> \<longleftrightarrow> m \<le> length cs \<and> prefix p (drop m cs) \<and> (\<forall>j<m. \<not> prefix p (drop j cs))"
        by (rule Cons.IH)
      also have "\<dots> \<longleftrightarrow> k \<le> length (c # cs) \<and> prefix p (drop k (c # cs))
          \<and> (\<forall>j<k. \<not> prefix p (drop j (c # cs)))"
        using False unfolding Suc by (simp add: All_less_Suc2)
      finally show ?thesis .
    qed
  qed
qed

lemma codeAt_0: "codeAt (c # cs) 0 \<longleftrightarrow> startsWithCode (c # cs)"
  unfolding codeAt_def by simp

lemma codeAt_Suc: "codeAt (c # cs) (Suc m) \<longleftrightarrow> codeAt cs m"
  unfolding codeAt_def by simp

lemma matchCode_Some_iff:
  "matchCode s = Some k \<longleftrightarrow> codeAt s k \<and> (\<forall>j<k. \<not> codeAt s j)"
proof (induction s arbitrary: k)
  case Nil
  then show ?case by (simp add: codeAt_def startsWithCode_def)
next
  case (Cons c cs)
  show ?case
  proof (cases "codeAt (c # cs) 0")
    case True
    have "matchCode (c # cs) = Some 0"
      using True unfolding codeAt_0 by simp
    show ?thesis
    proof (cases k)
      case 0
      with True \<open>matchCode (c # cs) = Some 0\<close> show ?thesis by simp
    next
      case (Suc m)
      have "\<not> (\<forall>j<k. \<not> codeAt (c # cs) j)"
        using True Suc by (intro notI) (drule spec [of _ 0], simp)
      moreover have "matchCode (c # cs) \<noteq> Some k"
        using \<open>matchCode (c # cs) = Some 0\<close> Suc by simp
      ultimately show ?thesis by blast
    qed
  next
    case False
    have step: "matchCode (c # cs) = map_option Suc (matchCode cs)"
      using False unfolding codeAt_0 by simp
    show ?thesis
    proof (cases k)
      case 0
      with False step show ?thesis by simp
    next
      case (Suc m)
      have "matchCode (c # cs) = Some k \<longleftrightarrow> matchCode cs = Some m"
        unfolding step Suc by auto
      also have "\<dots> \<longleftrightarrow> codeAt cs m \<and> (\<forall>j<m. \<not> codeAt cs j)"
        by (rule Cons.IH)
      also have "\<dots> \<longleftrightarrow> codeAt (c # cs) k \<and> (\<forall>j<k. \<not> codeAt (c # cs) j)"
        using False unfolding Suc by (simp add: All_less_Suc2 codeAt_Suc)
      finally show ?thesis .
    qed
  qed
qed

lemma matchCode_None_iff: "matchCode s = None \<longleftrightarrow> (\<forall>k. \<not> codeAt s k)"
proof
  assume n: "matchCode s = None"
  show "\<forall>k. \<not> codeAt s k"
  proof (rule ccontr)
    assume "\<not> (\<forall>k. \<not> codeAt s k)"
    then obtain k where "codeAt s k" by blast
    then have "codeAt s (LEAST k. codeAt s k)" by (rule LeastI)
    moreover have "\<forall>j<(LEAST k. codeAt s k). \<not> codeAt s j"
      using not_less_Least by blast
    ultimately have "matchCode s = Some (LEAST k. codeAt s k)"
      unfolding matchCode_Some_iff by (rule conjI)
    with n show False by simp
  qed
next
  assume a: "\<forall>k. \<not> codeAt s k"
  show "matchCode s = None"
  proof (cases "matchCode s")
    case None
    then show ?thesis .
  next
    case (Some k)
    then have "codeAt s k" unfolding matchCode_Some_iff by (rule conjunct1)
    with a show ?thesis by blast
  qed
qed

lemma indexOf_fourSpaces_Some:
  "indexOf area ''    '' = Some j \<longleftrightarrow> fourSpacesAt area j \<and> (\<forall>i<j. \<not> fourSpacesAt area i)"
proof -
  have "fourSpacesAt area j \<Longrightarrow> j \<le> length area"
    unfolding fourSpacesAt_def by (cases "j \<le> length area") auto
  then show ?thesis
    unfolding indexOf_Some_iff fourSpacesAt_def [symmetric] by blast
qed

lemma indexOf_fourSpaces_None:
  "indexOf area ''    '' = None \<longleftrightarrow> (\<forall>j. \<not> fourSpacesAt area j)"
proof
  assume n: "indexOf area ''    '' = None"
  show "\<forall>j. \<not> fourSpacesAt area j"
  proof (rule ccontr)
    assume "\<not> (\<forall>j. \<not> fourSpacesAt area j)"
    then obtain j where "fourSpacesAt area j" by blast
    then have "fourSpacesAt area (LEAST j. fourSpacesAt area j)" by (rule LeastI)
    moreover have "\<forall>i<(LEAST j. fourSpacesAt area j). \<not> fourSpacesAt area i"
      using not_less_Least by blast
    ultimately have "indexOf area ''    '' = Some (LEAST j. fourSpacesAt area j)"
      unfolding indexOf_fourSpaces_Some by (rule conjI)
    with n show False by simp
  qed
next
  assume a: "\<forall>j. \<not> fourSpacesAt area j"
  show "indexOf area ''    '' = None"
  proof (cases "indexOf area ''    ''")
    case None
    then show ?thesis .
  next
    case (Some j)
    then have "fourSpacesAt area j" unfolding indexOf_fourSpaces_Some by (rule conjunct1)
    with a show ?thesis by blast
  qed
qed

lemma tableRowHTML_skip: "\<not> isDataRow seps line \<Longrightarrow> tableRowHTML seps cols line = []"
  by (auto simp: isDataRow_def tableRowHTML_def Let_def)

lemma tableRowHTML_row:
  "isDataRow seps line \<Longrightarrow>
     prefix (''<tr><td>'' @ trim (substring line (bstart (groupBracket seps)) (bend (groupBracket seps)))
             @ ''</td><td>'' @ trim (substring line (bstart (codeBracket seps)) (bend (codeBracket seps)))
             @ ''</td>'')
       (tableRowHTML seps cols line)"
  by (simp add: isDataRow_def tableRowHTML_def Let_def)

lemma concat_map_filter_skip:
  "(\<And>x. \<not> P x \<Longrightarrow> f x = []) \<Longrightarrow> concat (map f xs) = concat (map f (filter P xs))"
  by (induction xs) auto

section \<open>The row filter of the row parser\<close>

text \<open>
  C2. For every line and every column map, the row parser appends a table row for the
  line if and only if the line's group slice trims to exactly one character and its code
  slice trims to a non-empty string (\<open>isDataRow\<close>); the body of the table is made of
  the rows of exactly those lines, in order. A line whose group slice trims to \<open>CC\<close> is
  skipped whatever else it holds, and a line whose group slice trims to \<open>C\<close> and whose
  code slice trims to \<open>1234\<close> gets a row that starts with these two cells.
\<close>

theorem generateTableHTML_row_filter:
  "(tableRowHTML seps cols line \<noteq> [] \<longleftrightarrow> isDataRow seps line)
   \<and> generateTableHTML title content (Some seps) =
       tableHeadHTML title (sortedDataColumns (dataColumnIndices seps))
       @ concat (map (tableRowHTML seps (sortedDataColumns (dataColumnIndices seps)))
           (filter (isDataRow seps) (splitLines content)))
       @ ''</tbody></table></div>''
   \<and> (trim (substring line (bstart (groupBracket seps)) (bend (groupBracket seps))) = ''CC''
        \<longrightarrow> tableRowHTML seps cols line = [])
   \<and> (trim (substring line (bstart (groupBracket seps)) (bend (groupBracket seps))) = ''C''
        \<and> trim (substring line (bstart (codeBracket seps)) (bend (codeBracket seps))) = ''1234''
        \<longrightarrow> prefix ''<tr><td>C</td><td>1234</td>'' (tableRowHTML seps cols line))"
proof (intro conjI impI)
  show "tableRowHTML seps cols line \<noteq> [] \<longleftrightarrow> isDataRow seps line"
    using tableRowHTML_skip [of seps line cols] tableRowHTML_row [of seps line cols]
    by (cases "isDataRow seps line") auto
next
  show "generateTableHTML title content (Some seps) =
       tableHeadHTML title (sortedDataColumns (dataColumnIndices seps))
       @ concat (map (tableRowHTML seps (sortedDataColumns (dataColumnIndices seps)))
           (filter (isDataRow seps) (splitLines content)))
       @ ''</tbody></table></div>''"
    unfolding generateTableHTML_def Let_def option.case
    using concat_map_filter_skip [of "isDataRow seps"
        "tableRowHTML seps (sortedDataColumns (dataColumnIndices seps))" "splitLines content",
        OF tableRowHTML_skip]
    by simp
next
  assume "trim (substring line (bstart (groupBracket seps)) (bend (groupBracket seps))) = ''CC''"
  then have "\<not> isDataRow seps line" by (simp add: isDataRow_def)
  then show "tableRowHTML seps cols line = []" by (rule tableRowHTML_skip)
next
  assume a: "trim (substring line (bstart (groupBracket seps)) (bend (groupBracket seps))) = ''C''
        \<and> trim (substring line (bstart (codeBracket seps)) (bend (codeBracket seps))) = ''1234''"
  then have "isDataRow seps line" by (simp add: isDataRow_def)
  from tableRowHTML_row [OF this, of cols] a
  show "prefix ''<tr><td>C</td><td>1234</td>'' (tableRowHTML seps cols line)" by simp
qed


text \<open>
  In the sample report, line 7 (group \<open>C\<close>, code \<open>1234\<close>) is a data row and line 8
  (group slice \<open>CC\<close>) is skipped.
\<close>

theorem generateTableHTML_row_filter_witness:
  "isDataRow sampleSeparators (splitLines sampleReport ! 7)
   \<and> tableRowHTML sampleSeparators [] (splitLines sampleReport ! 7) \<noteq> []
   \<and> prefix ''<tr><td>C</td><td>1234</td>'' (tableRowHTML sampleSeparators [] (splitLines sampleReport ! 7))
   \<and> tableRowHTML sampleSeparators [] (splitLines sampleReport ! 8) = []"
proof -
  let ?l = "splitLines sampleReport ! 7"
  let ?m = "splitLines sampleReport ! 8"
  have g: "trim (substring ?l (bstart (groupBracket sampleSeparators)) (bend (groupBracket sampleSeparators))) = ''C''
      \<and> trim (substring ?l (bstart (codeBracket sampleSeparators)) (bend (codeBracket sampleSeparators))) = ''1234''"
    by code_simp
  have c: "trim (substring ?m (bstart (groupBracket sampleSeparators)) (bend (groupBracket sampleSeparators))) = ''CC''"
    by code_simp
  have d: "isDataRow sampleSeparators ?l"
    by code_simp
  from generateTableHTML_row_filter [of sampleSeparators "[]" ?l "[]" sampleReport] g d
  have 1: "tableRowHTML sampleSeparators [] ?l \<noteq> []"
    and 2: "prefix ''<tr><td>C</td><td>1234</td>'' (tableRowHTML sampleSeparators [] ?l)"
    by blast+
  from generateTableHTML_row_filter [of sampleSeparators "[]" ?m "[]" sampleReport] c
  have 3: "tableRowHTML sampleSeparators [] ?m = []"
    by blast
  from d 1 2 3 show ?thesis by blast
qed

section \<open>The brackets found by the column locator\<close>

lemma findColumnSeparators_unfold:
  assumes ft: "fileType = 0 \<or> fileType = 1" and hr: "1 \<le> headerRow"
    and len: "nat (headerRow + 3) < length (splitLines content)"
  shows "findColumnSeparators content headerRow fileType =
     (case matchCode (splitLines content ! nat (headerRow + 3)) of
        None \<Rightarrow> Inr None
      | Some codeIndex \<Rightarrow>
          Inr (Some \<lparr>groupBracket = \<lparr>bstart = 0, bend = int codeIndex\<rparr>,
             codeBracket = \<lparr>bstart = int codeIndex, bend = int codeIndex + 4\<rparr>,
             nameBracket = \<lparr>bstart = int codeIndex + 4,
               bend = (case indexOf (substringFrom (splitLines content ! nat (headerRow + 3)) (int codeIndex + 4)) ''    '' of
                         Some fourSpacesIndex \<Rightarrow> int codeIndex + 4 + int fourSpacesIndex
                       | None \<Rightarrow> int (length (splitLines content ! nat (headerRow + 3))))\<rparr>,
             dataColumnIndices =
               recordSecondary (splitLines content) [headerRow - 1, headerRow]
                 (recordTerms (splitLines content ! nat (headerRow - 1)) (dataColumnTerms fileType) [])\<rparr>))"
proof -
  have a: "headerRow \<noteq> - 1" "headerRow + 4 - 1 < int (length (splitLines content))"
    using hr len by auto
  have i: "headerRow + 4 - 1 = headerRow + 3"
    by simp
  have b: "nthLine (splitLines content) (headerRow + 4 - 1) = Some (splitLines content ! nat (headerRow + 3))"
    unfolding i nthLine_def using hr len by (simp add: add.commute)
  have c: "nthLine (splitLines content) (headerRow - 1) = Some (splitLines content ! nat (headerRow - 1))"
    using hr len by (auto simp: nthLine_def)
  show ?thesis
    using ft unfolding findColumnSeparators_def Let_def
    by (simp only: a b c option.case if_True simp_thms bracket.simps split: option.split) auto
qed

lemma codeAt_length: "codeAt line k \<Longrightarrow> k + 4 \<le> length line"
  unfolding codeAt_def startsWithCode_def by (cases "k + 4 \<le> length line") auto

text \<open>
  C3 (as the code has it). For a report type 0 or 1 and a located header row (1-based,
  so at least 1) the locator looks at the line 4 below the header, index
  \<open>headerRow + 3\<close>. If the text has no such line, or that line has no four consecutive
  characters from \<open>A-Z\<close> and \<open>0-9\<close>, the result is \<open>null\<close>. Otherwise, with \<open>k\<close> the first
  offset where four such characters stand, the group bracket is \<open>[0, k)\<close>, the code
  bracket \<open>[k, k + 4)\<close>, and the name bracket runs from \<open>k + 4\<close> to the start of the first
  run of four spaces after the code, or to the end of the line when there is none. With
  no column map, \<open>generateTableHTML\<close> returns its error paragraph and parses no row.
\<close>

theorem findColumnSeparators_brackets:
  assumes ft: "fileType = 0 \<or> fileType = 1" and hr: "1 \<le> headerRow"
  shows "(length (splitLines content) \<le> nat (headerRow + 3) \<longrightarrow>
            findColumnSeparators content headerRow fileType = Inr None)
    \<and> (nat (headerRow + 3) < length (splitLines content) \<and>
         (\<forall>k. \<not> codeAt (splitLines content ! nat (headerRow + 3)) k) \<longrightarrow>
            findColumnSeparators content headerRow fileType = Inr None)
    \<and> (nat (headerRow + 3) < length (splitLines content) \<and>
         codeAt (splitLines content ! nat (headerRow + 3)) k \<and>
         (\<forall>j<k. \<not> codeAt (splitLines content ! nat (headerRow + 3)) j) \<longrightarrow>
         (\<exists>seps. findColumnSeparators content headerRow fileType = Inr (Some seps)
            \<and> groupBracket seps = \<lparr>bstart = 0, bend = int k\<rparr>
            \<and> codeBracket seps = \<lparr>bstart = int k, bend = int k + 4\<rparr>
            \<and> bstart (nameBracket seps) = int k + 4
            \<and> (\<forall>j. fourSpacesAt (drop (k + 4) (splitLines content ! nat (headerRow + 3))) j \<and>
                   (\<forall>i<j. \<not> fourSpacesAt (drop (k + 4) (splitLines content ! nat (headerRow + 3))) i)
                   \<longrightarrow> bend (nameBracket seps) = int k + 4 + int j)
            \<and> ((\<forall>j. \<not> fourSpacesAt (drop (k + 4) (splitLines content ! nat (headerRow + 3))) j)
                   \<longrightarrow> bend (nameBracket seps) = int (length (splitLines content ! nat (headerRow + 3))))))
    \<and> generateTableHTML title content None =
        ''<h2>'' @ title @ ''</h2><p class=\"text-danger\">Could not generate table because column definitions were not found.</p>''"
proof (intro conjI impI)
  assume "length (splitLines content) \<le> nat (headerRow + 3)"
  then have "\<not> headerRow + 4 - 1 < int (length (splitLines content))"
    using hr by auto
  then show "findColumnSeparators content headerRow fileType = Inr None"
    unfolding findColumnSeparators_def Let_def by simp
next
  assume a: "nat (headerRow + 3) < length (splitLines content) \<and>
         (\<forall>k. \<not> codeAt (splitLines content ! nat (headerRow + 3)) k)"
  then have "matchCode (splitLines content ! nat (headerRow + 3)) = None"
    by (simp add: matchCode_None_iff)
  then show "findColumnSeparators content headerRow fileType = Inr None"
    using findColumnSeparators_unfold [OF ft hr conjunct1 [OF a]] by simp
next
  let ?line = "splitLines content ! nat (headerRow + 3)"
  let ?area = "drop (k + 4) ?line"
  assume a: "nat (headerRow + 3) < length (splitLines content) \<and> codeAt ?line k \<and>
         (\<forall>j<k. \<not> codeAt ?line j)"
  then have m: "matchCode ?line = Some k"
    by (simp add: matchCode_Some_iff)
  have area: "substringFrom ?line (int k + 4) = ?area"
    using codeAt_length [of ?line k] a by (simp add: substringFrom_def nat_add_distrib)
  define e where "e = (case indexOf ?area ''    '' of
                         Some fourSpacesIndex \<Rightarrow> int k + 4 + int fourSpacesIndex
                       | None \<Rightarrow> int (length ?line))"
  define seps where "seps = \<lparr>groupBracket = \<lparr>bstart = 0, bend = int k\<rparr>,
             codeBracket = \<lparr>bstart = int k, bend = int k + 4\<rparr>,
             nameBracket = \<lparr>bstart = int k + 4, bend = e\<rparr>,
             dataColumnIndices =
               recordSecondary (splitLines content) [headerRow - 1, headerRow]
                 (recordTerms (splitLines content ! nat (headerRow - 1)) (dataColumnTerms fileType) [])\<rparr>"
  have r: "findColumnSeparators content headerRow fileType = Inr (Some seps)"
    using findColumnSeparators_unfold [OF ft hr conjunct1 [OF a]] m area
    by (simp add: seps_def e_def)
  have e1: "\<forall>j. fourSpacesAt ?area j \<and> (\<forall>i<j. \<not> fourSpacesAt ?area i) \<longrightarrow> e = int k + 4 + int j"
  proof (intro allI impI)
    fix j
    assume "fourSpacesAt ?area j \<and> (\<forall>i<j. \<not> fourSpacesAt ?area i)"
    then have "indexOf ?area ''    '' = Some j"
      by (rule iffD2 [OF indexOf_fourSpaces_Some])
    then show "e = int k + 4 + int j" by (simp add: e_def)
  qed
  have e2: "(\<forall>j. \<not> fourSpacesAt ?area j) \<longrightarrow> e = int (length ?line)"
  proof
    assume "\<forall>j. \<not> fourSpacesAt ?area j"
    then have "indexOf ?area ''    '' = None"
      by (rule iffD2 [OF indexOf_fourSpaces_None])
    then show "e = int (length ?line)" by (simp add: e_def)
  qed
  show "\<exists>seps. findColumnSeparators content headerRow fileType = Inr (Some seps)
            \<and> groupBracket seps = \<lparr>bstart = 0, bend = int k\<rparr>
            \<and> codeBracket seps = \<lparr>bstart = int k, bend = int k + 4\<rparr>
            \<and> bstart (nameBracket seps) = int k + 4
            \<and> (\<forall>j. fourSpacesAt ?area j \<and> (\<forall>i<j. \<not> fourSpacesAt ?area i)
                   \<longrightarrow> bend (nameBracket seps) = int k + 4 + int j)
            \<and> ((\<forall>j. \<not> fourSpacesAt ?area j) \<longrightarrow> bend (nameBracket seps) = int (length ?line))"
    using r e1 e2 by (intro exI [of _ seps]) (simp add: seps_def)
next
  show "generateTableHTML title content None =
        ''<h2>'' @ title @ ''</h2><p class=\"text-danger\">Could not generate table because column definitions were not found.</p>''"
    by (simp add: generateTableHTML_def)
qed

text \<open>
  In the sample report the header is row 4, the code \<open>1234\<close> of line 7 starts at offset 2
  and the client name ends at offset 22.
\<close>

theorem findColumnSeparators_brackets_witness:
  "findHeaderRow sampleReport 0 = 4
   \<and> (\<exists>seps. findColumnSeparators sampleReport 4 0 = Inr (Some seps)
          \<and> groupBracket seps = \<lparr>bstart = 0, bend = 2\<rparr>
          \<and> codeBracket seps = \<lparr>bstart = 2, bend = 6\<rparr>
          \<and> nameBracket seps = \<lparr>bstart = 6, bend = 22\<rparr>)"
proof -
  let ?l = "splitLines sampleReport ! nat (4 + 3)"
  have h: "findHeaderRow sampleReport 0 = 4"
    by code_simp
  have ft: "(0::nat) = 0 \<or> (0::nat) = 1" and hr: "(1::int) \<le> 4"
    by simp_all
  have len: "nat (4 + 3) < length (splitLines sampleReport)"
    by code_simp
  have "matchCode ?l = Some 2"
    by code_simp
  then have c2: "codeAt ?l 2" and first: "\<forall>j<2. \<not> codeAt ?l j"
    unfolding matchCode_Some_iff by blast+
  have "indexOf (drop (2 + 4) ?l) ''    '' = Some 16"
    by code_simp
  then have s16: "fourSpacesAt (drop (2 + 4) ?l) 16"
    and before: "\<forall>i<16. \<not> fourSpacesAt (drop (2 + 4) ?l) i"
    unfolding indexOf_fourSpaces_Some by blast+
  from findColumnSeparators_brackets [OF ft hr, of sampleReport 2 "[]"] len c2 first
  obtain seps where r: "findColumnSeparators sampleReport 4 0 = Inr (Some seps)"
    and g: "groupBracket seps = \<lparr>bstart = 0, bend = int 2\<rparr>"
    and c: "codeBracket seps = \<lparr>bstart = int 2, bend = int 2 + 4\<rparr>"
    and n1: "bstart (nameBracket seps) = int 2 + 4"
    and n2: "\<forall>j. fourSpacesAt (drop (2 + 4) ?l) j \<and> (\<forall>i<j. \<not> fourSpacesAt (drop (2 + 4) ?l) i)
               \<longrightarrow> bend (nameBracket seps) = int 2 + 4 + int j"
    by blast
  from n2 s16 before have n3: "bend (nameBracket seps) = int 2 + 4 + int 16"
    by blast
  have "nameBracket seps = \<lparr>bstart = 6, bend = 22\<rparr>"
    using n1 n3 by (cases "nameBracket seps") simp
  with h r g c show ?thesis by simp
qed

text \<open>
  C3 as stated fails: the claim's code is any four alphanumeric characters, and the data
  line \<open>C ab12 acme trading co    110    100\<close> has the alphanumeric code \<open>ab12\<close> at offset
  2; the pattern of the script accepts upper-case letters and digits only, finds no match
  on that line and returns \<open>null\<close>.
\<close>

theorem findColumnSeparators_lowercase_counterexample:
  "findHeaderRow lowercaseReport 0 = 1
   \<and> splitLines lowercaseReport ! 4 = ''C ab12 acme trading co    110    100''
   \<and> take 4 (drop 2 ''C ab12 acme trading co    110    100'') = ''ab12''
   \<and> findColumnSeparators lowercaseReport 1 0 = Inr None"
  by code_simp

section \<open>Facts about the rounding to a double\<close>

lemma toNumber_not_NaN: "toNumber r \<noteq> NaN"
  by (simp add: toNumber_def Let_def split: prod.split)

lemma powInt_power: "powInt b n = b ^ nat n"
proof (induction b n rule: powInt.induct)
  case (1 b n)
  show ?case
  proof (cases "n \<le> 0")
    case True
    then show ?thesis by (subst powInt.simps) simp
  next
    case False
    then have n: "0 < n" by simp
    have sq: "(b * b) ^ nat (n div 2) = b ^ (2 * nat (n div 2))"
      by (simp add: power_mult power2_eq_square mult.commute)
    show ?thesis
    proof (cases "even n")
      case True
      then have "2 * nat (n div 2) = nat n"
        using n by (auto elim!: evenE simp: nat_mult_distrib)
      with "1.IH"(1) [OF False True] sq True False show ?thesis
        by (subst powInt.simps) simp
    next
      case odd: False
      then have "Suc (2 * nat (n div 2)) = nat n"
        using n by (auto elim!: oddE simp: nat_mult_distrib nat_add_distrib)
      then have "b ^ nat n = b * b ^ (2 * nat (n div 2))"
        by (metis power_Suc)
      with "1.IH"(2) [OF False odd] sq odd False show ?thesis
        by (subst powInt.simps) simp
    qed
  qed
qed

lemma powInt_pos: "0 < b \<Longrightarrow> 0 < powInt b n"
  by (simp add: powInt_power)

lemma pow2_powi: "pow2 e = 2 powi e"
  by (simp add: pow2_def powInt_power power_int_def field_simps)

lemma pow10_powi: "pow10 e = 10 powi e"
  by (simp add: pow10_def powInt_power power_int_def field_simps)

lemma bitLength_bounds:
  "0 < n \<Longrightarrow> 1 \<le> bitLength n \<and> 2 ^ nat (bitLength n - 1) \<le> n \<and> n < 2 ^ nat (bitLength n)"
proof (induction n rule: bitLength.induct)
  case (1 n)
  have e: "bitLength n = 1 + bitLength (n div 2)"
    using "1.prems" by (subst bitLength.simps) simp
  show ?case
  proof (cases "n = 1")
    case True
    have "bitLength (1 div 2) = 0" by (subst bitLength.simps) simp
    with e True show ?thesis by simp
  next
    case False
    with "1.prems" have h: "0 < n div 2" by simp
    have nn: "\<not> n \<le> 0" using "1.prems" by simp
    from "1.IH" [OF nn h] have
      b1: "1 \<le> bitLength (n div 2)" and
      b2: "2 ^ nat (bitLength (n div 2) - 1) \<le> n div 2" and
      b3: "n div 2 < 2 ^ nat (bitLength (n div 2))"
      by simp_all
    have s: "nat (bitLength n - 1) = Suc (nat (bitLength (n div 2) - 1))"
      and t: "nat (bitLength n) = Suc (nat (bitLength (n div 2)))"
      using b1 e by simp_all
    have "2 * 2 ^ nat (bitLength (n div 2) - 1) \<le> n"
      using b2 by linarith
    moreover have "n < 2 * 2 ^ nat (bitLength (n div 2))"
      using b3 by linarith
    ultimately show ?thesis
      using b1 e s t by simp
  qed
qed


lemma scaled_value:
  assumes "0 < q" and "scaled p q s = (n, d)"
  shows "0 < d" and "(of_int n / of_int d :: rat) = of_int p / of_int q / 2 powi s"
proof -
  have pos: "0 < powInt 2 k" for k
    by (rule powInt_pos) simp
  show "0 < d"
    using assms pos by (auto simp: scaled_def split: if_splits)
  show "(of_int n / of_int d :: rat) = of_int p / of_int q / 2 powi s"
  proof (cases "0 \<le> s")
    case True
    then have "n = p" and "d = q * powInt 2 s"
      using assms(2) by (simp_all add: scaled_def)
    then show ?thesis
      using True by (simp add: powInt_power power_int_def)
  next
    case False
    then have "n = p * powInt 2 (- s)" and "d = q"
      using assms(2) by (simp_all add: scaled_def)
    then show ?thesis
      using False by (simp add: powInt_power power_int_def field_simps)
  qed
qed

lemma scaled_le:
  assumes "0 < q" and "scaled p q s = (n, d)"
  shows "d \<le> n \<longleftrightarrow> (2::rat) powi s \<le> of_int p / of_int q"
proof -
  note v = scaled_value [OF assms]
  have "d \<le> n \<longleftrightarrow> (1::rat) \<le> of_int n / of_int d"
    using v(1) by (simp add: field_simps)
  also have "\<dots> \<longleftrightarrow> (1::rat) \<le> of_int p / of_int q / 2 powi s"
    by (simp only: v(2))
  also have "\<dots> \<longleftrightarrow> (2::rat) powi s \<le> of_int p / of_int q"
  proof -
    have "(0::rat) < 2 powi s" by simp
    then show ?thesis by (simp only: pos_le_divide_eq mult_1)
  qed
  finally show ?thesis .
qed

lemma floorLog2_bounds:
  assumes p: "0 < p" and q: "0 < q"
  shows "(2::rat) powi floorLog2 p q \<le> of_int p / of_int q"
    and "of_int p / of_int q < (2::rat) powi (floorLog2 p q + 1)"
proof -
  define a :: rat where "a = of_int p / of_int q"
  define e where "e = bitLength p - bitLength q"
  obtain n d where sc: "scaled p q e = (n, d)"
    by (cases "scaled p q e")
  have fl: "floorLog2 p q = (if d \<le> n then e else e - 1)"
    by (simp add: floorLog2_def Let_def e_def [symmetric] sc)
  have test: "d \<le> n \<longleftrightarrow> 2 powi e \<le> a"
    unfolding a_def by (rule scaled_le [OF q sc])
  from bitLength_bounds [OF p] have
    p1: "1 \<le> bitLength p" and p2: "2 ^ nat (bitLength p - 1) \<le> p" and p3: "p < 2 ^ nat (bitLength p)"
    by simp_all
  from bitLength_bounds [OF q] have
    q1: "1 \<le> bitLength q" and q2: "2 ^ nat (bitLength q - 1) \<le> q" and q3: "q < 2 ^ nat (bitLength q)"
    by simp_all
  have P2: "(2::rat) powi (bitLength p - 1) \<le> of_int p"
  proof -
    have "(of_int (2 ^ nat (bitLength p - 1)) :: rat) \<le> of_int p"
      using p2 by (simp only: of_int_le_iff)
    then show ?thesis
      using p1 by (simp add: power_int_def)
  qed
  have P3: "of_int p < (2::rat) powi bitLength p"
  proof -
    have "(of_int p :: rat) < of_int (2 ^ nat (bitLength p))"
      using p3 by (simp only: of_int_less_iff)
    then show ?thesis
      using p1 by (simp add: power_int_def)
  qed
  have Q2: "(2::rat) powi (bitLength q - 1) \<le> of_int q"
  proof -
    have "(of_int (2 ^ nat (bitLength q - 1)) :: rat) \<le> of_int q"
      using q2 by (simp only: of_int_le_iff)
    then show ?thesis
      using q1 by (simp add: power_int_def)
  qed
  have Q3: "of_int q < (2::rat) powi bitLength q"
  proof -
    have "(of_int q :: rat) < of_int (2 ^ nat (bitLength q))"
      using q3 by (simp only: of_int_less_iff)
    then show ?thesis
      using q1 by (simp add: power_int_def)
  qed
  have qpos: "(0::rat) < of_int q" using q by simp
  have ppos: "(0::rat) < of_int p" using p by simp
  have up: "a < 2 powi (e + 1)"
  proof -
    have "a * of_int q = of_int p"
      using qpos by (simp add: a_def)
    also have "\<dots> < 2 powi bitLength p" by (rule P3)
    also have "\<dots> = 2 powi (e + 1) * 2 powi (bitLength q - 1)"
      by (simp add: e_def power_int_add [symmetric])
    also have "\<dots> \<le> 2 powi (e + 1) * of_int q"
      using Q2 by (simp add: mult_left_mono)
    finally show ?thesis
      using qpos by simp
  qed
  have low: "2 powi (e - 1) \<le> a"
  proof -
    have "2 powi (e - 1) * of_int q \<le> 2 powi (e - 1) * (2::rat) powi bitLength q"
      using Q3 by (simp add: mult_left_mono)
    also have "\<dots> = 2 powi (bitLength p - 1)"
      by (simp add: e_def power_int_add [symmetric])
    also have "\<dots> \<le> of_int p" by (rule P2)
    also have "\<dots> = a * of_int q"
      using qpos by (simp add: a_def)
    finally show ?thesis
      using qpos by simp
  qed
  show "(2::rat) powi floorLog2 p q \<le> of_int p / of_int q"
    using fl test low by (auto simp: a_def)
  show "of_int p / of_int q < (2::rat) powi (floorLog2 p q + 1)"
    using fl test up by (auto simp: a_def not_le)
qed

lemma roundHalfEven_ge:
  assumes "0 < d" and "k * d \<le> n"
  shows "k \<le> roundHalfEven n d"
proof -
  have "(k * d) div d \<le> n div d"
    using assms by (intro zdiv_mono1)
  then have "k \<le> n div d"
    using assms(1) by simp
  then show ?thesis
    by (auto simp: roundHalfEven_def Let_def)
qed

lemma roundHalfEven_zero:
  assumes "0 \<le> n" and "2 * n \<le> d" and "0 < d"
  shows "roundHalfEven n d = 0"
proof -
  have "n < d" using assms by linarith
  then have "n div d = 0" "n mod d = n"
    using assms(1) by simp_all
  then show ?thesis
    using assms by (simp add: roundHalfEven_def Let_def)
qed


text \<open>The rounding on a positive rational, with its numerator and denominator.\<close>

lemma toNumber_pos_unfold:
  assumes "0 < r"
  obtains p q s n d where
    "0 < p" "0 < q" "r = of_int p / of_int q"
    "s = max (floorLog2 p q) (- 1022) - 52"
    "scaled p q s = (n, d)" "0 \<le> n" "0 < d"
    "(of_int n / of_int d :: rat) = r / 2 powi s"
    "toNumber r =
       (if (2::rat) powi 1024 \<le> of_int (roundHalfEven n d) * 2 powi s then PInf
        else Fin (of_int (roundHalfEven n d) * 2 powi s))"
proof -
  obtain p q where pq: "quotient_of r = (p, q)"
    by (cases "quotient_of r")
  have q: "0 < q" by (rule quotient_of_denom_pos [OF pq])
  have r: "r = of_int p / of_int q" by (rule quotient_of_div [OF pq])
  have p: "0 < p"
    using assms q unfolding r by (simp add: zero_less_divide_iff)
  define s where "s = max (floorLog2 p q) (- 1022) - 52"
  obtain n d where sc: "scaled p q s = (n, d)"
    by (cases "scaled p q s")
  have d: "0 < d" and v: "(of_int n / of_int d :: rat) = r / 2 powi s"
    using scaled_value [OF q sc] by (simp_all add: r)
  have n: "0 \<le> n"
  proof -
    have "0 < powInt 2 k" for k by (rule powInt_pos) simp
    then have "0 \<le> p * powInt 2 k" for k
      using p by (intro mult_nonneg_nonneg less_imp_le)
    then show ?thesis
      using sc p by (auto simp: scaled_def split: if_splits)
  qed
  have ap: "\<bar>p\<bar> = p" using p by simp
  have "toNumber r =
       (if (2::rat) powi 1024 \<le> of_int (roundHalfEven n d) * 2 powi s then PInf
        else Fin (of_int (roundHalfEven n d) * 2 powi s))"
    using p by (simp add: toNumber_def pq ap s_def [symmetric] sc Let_def pow2_powi)
  with p q r s_def sc n d v show thesis
    by (rule that)
qed

lemma toNumber_uminus: "toNumber (- r) = js_neg (toNumber r)"
proof -
  obtain p q where pq: "quotient_of r = (p, q)"
    by (cases "quotient_of r")
  have m: "quotient_of (- r) = (- p, q)"
    by (simp add: rat_uminus_code pq)
  have q: "0 < q" by (rule quotient_of_denom_pos [OF pq])
  show ?thesis
    by (cases "0 < p") (auto simp: toNumber_def pq m Let_def js_neg_def split: prod.splits)
qed

lemma toNumber_zero: "toNumber 0 = Fin 0"
  by (simp add: toNumber_def)

lemma toNumber_nonneg:
  assumes "0 < r"
  shows "toNumber r = PInf \<or> (\<exists>v. toNumber r = Fin v \<and> 0 \<le> v)"
proof -
  from assms obtain p q s n d where
    h: "0 \<le> n" "0 < d"
      "toNumber r =
         (if (2::rat) powi 1024 \<le> of_int (roundHalfEven n d) * 2 powi s then PInf
          else Fin (of_int (roundHalfEven n d) * 2 powi s))"
    by (rule toNumber_pos_unfold)
  have "0 \<le> roundHalfEven n d"
    using h(1,2) by (intro roundHalfEven_ge) simp_all
  then have "(0::rat) \<le> of_int (roundHalfEven n d) * 2 powi s"
    by simp
  with h(3) show ?thesis
    by auto
qed

text \<open>A power of two in the normal range is a double, and rounding does not pass it.\<close>

lemma toNumber_ge_power:
  assumes k: "- 1022 \<le> k" and r: "2 powi k \<le> r"
  shows "toNumber r = PInf \<or> (\<exists>v. toNumber r = Fin v \<and> 2 powi k \<le> v)"
proof -
  have "(0::rat) < 2 powi k" by simp
  with r have "0 < r" by linarith
  then obtain p q s n d where
    h: "0 < p" "0 < q" "r = of_int p / of_int q"
      "s = max (floorLog2 p q) (- 1022) - 52"
      "scaled p q s = (n, d)" "0 \<le> n" "0 < d"
      "(of_int n / of_int d :: rat) = r / 2 powi s"
      "toNumber r =
         (if (2::rat) powi 1024 \<le> of_int (roundHalfEven n d) * 2 powi s then PInf
          else Fin (of_int (roundHalfEven n d) * 2 powi s))"
    by (rule toNumber_pos_unfold)
  define e where "e = floorLog2 p q"
  have up: "r < 2 powi (e + 1)"
    using floorLog2_bounds(2) [OF h(1,2)] by (simp add: h(3) e_def)
  have ke: "k \<le> e"
  proof (rule ccontr)
    assume "\<not> k \<le> e"
    then have "e + 1 \<le> k" by simp
    then have "(2::rat) powi (e + 1) \<le> 2 powi k"
      by (rule power_int_increasing) simp
    with up r show False by simp
  qed
  have s: "s = e - 52" and sk: "k \<le> s + 52"
    using ke k by (simp_all add: h(4) e_def [symmetric])
  have "(2::rat) powi 52 * 2 powi s = 2 powi (s + 52)"
    by (simp add: power_int_add mult.commute)
  also have "\<dots> \<le> 2 powi e"
    by (simp add: s)
  also have "\<dots> \<le> r"
    using floorLog2_bounds(1) [OF h(1,2)] by (simp add: h(3) e_def)
  finally have "(2::rat) powi 52 \<le> r / 2 powi s"
    by (simp add: pos_le_divide_eq)
  then have "(2::rat) powi 52 \<le> of_int n / of_int d"
    by (simp only: h(8))
  then have "(2::rat) ^ 52 * of_int d \<le> of_int n"
    using h(7) by (simp add: pos_le_divide_eq)
  then have "(of_int (2 ^ 52 * d) :: rat) \<le> of_int n"
    by simp
  then have "2 ^ 52 * d \<le> n"
    by (simp only: of_int_le_iff)
  then have "2 ^ 52 \<le> roundHalfEven n d"
    using h(7) by (intro roundHalfEven_ge) simp_all
  then have "(of_int (2 ^ 52) :: rat) \<le> of_int (roundHalfEven n d)"
    by (simp only: of_int_le_iff)
  then have "(2::rat) powi 52 * 2 powi s \<le> of_int (roundHalfEven n d) * 2 powi s"
    by (intro mult_right_mono) simp_all
  moreover have "(2::rat) powi k \<le> 2 powi 52 * 2 powi s"
  proof -
    have "(2::rat) powi k \<le> 2 powi (s + 52)"
      using sk by (intro power_int_increasing) simp_all
    then show ?thesis
      by (simp add: power_int_add mult.commute)
  qed
  ultimately have "(2::rat) powi k \<le> of_int (roundHalfEven n d) * 2 powi s"
    by (rule order_trans [rotated])
  with h(9) show ?thesis
    by auto
qed

lemma toNumber_overflow:
  assumes "2 powi 1024 \<le> r"
  shows "toNumber r = PInf"
proof -
  from toNumber_ge_power [OF _ assms] have
    "toNumber r = PInf \<or> (\<exists>v. toNumber r = Fin v \<and> 2 powi 1024 \<le> v)"
    by simp
  moreover have "toNumber r \<noteq> Fin v" if "2 powi 1024 \<le> v" for v
  proof -
    have "(0::rat) < 2 powi 1024" by simp
    with assms have "0 < r" by linarith
    then obtain p q s n d where
      h: "toNumber r =
         (if (2::rat) powi 1024 \<le> of_int (roundHalfEven n d) * 2 powi s then PInf
          else Fin (of_int (roundHalfEven n d) * 2 powi s))"
      by (rule toNumber_pos_unfold)
    with that show ?thesis
      by (auto split: if_splits)
  qed
  ultimately show ?thesis by blast
qed

lemma toNumber_underflow:
  assumes "0 \<le> r" and "r \<le> 2 powi (- 1075)"
  shows "toNumber r = Fin 0"
proof (cases "r = 0")
  case True
  then show ?thesis by (simp add: toNumber_zero)
next
  case False
  with assms(1) have "0 < r" by simp
  then obtain p q s n d where
    h: "0 < p" "0 < q" "r = of_int p / of_int q"
      "s = max (floorLog2 p q) (- 1022) - 52"
      "scaled p q s = (n, d)" "0 \<le> n" "0 < d"
      "(of_int n / of_int d :: rat) = r / 2 powi s"
      "toNumber r =
         (if (2::rat) powi 1024 \<le> of_int (roundHalfEven n d) * 2 powi s then PInf
          else Fin (of_int (roundHalfEven n d) * 2 powi s))"
    by (rule toNumber_pos_unfold)
  define e where "e = floorLog2 p q"
  have low: "2 powi e \<le> r"
    using floorLog2_bounds(1) [OF h(1,2)] by (simp add: h(3) e_def)
  have "e \<le> - 1075"
  proof (rule ccontr)
    assume "\<not> e \<le> - 1075"
    then have "- 1075 < e" by simp
    then have "(2::rat) powi (- 1075) < 2 powi e"
      by (rule power_int_strict_increasing) simp
    with low assms(2) show False by simp
  qed
  then have s: "s = - 1074"
    by (simp add: h(4) e_def [symmetric])
  have "r / 2 powi (- 1074) \<le> 2 powi (- 1075) / 2 powi (- 1074)"
    using assms(2) by (intro divide_right_mono) simp_all
  also have "\<dots> = 1 / 2"
  proof -
    have "(2::rat) powi (- 1074) = 2 powi (- 1075 + 1)"
      by simp
    also have "\<dots> = 2 * 2 powi (- 1075)"
      by (rule power_int_add_1') simp
    finally show ?thesis
      by simp
  qed
  finally have "(of_int n / of_int d :: rat) \<le> 1 / 2"
    by (simp only: h(8) s)
  then have "(2::rat) * of_int n \<le> of_int d"
    using h(7) by (simp add: field_simps)
  then have "(of_int (2 * n) :: rat) \<le> of_int d"
    by simp
  then have "2 * n \<le> d"
    by (simp only: of_int_le_iff)
  then have "roundHalfEven n d = 0"
    using h(6,7) by (intro roundHalfEven_zero)
  with h(9) show ?thesis
    by simp
qed

section \<open>Facts about reading and printing numbers\<close>

text \<open>A numeral above the range of the doubles reads as an infinity, one below it as zero.\<close>

lemma scanUnsigned_exponent:
  assumes "prefix ''Infinity'' s = False"
    and "takeWhile isDigit s = ip" and "dropWhile isDigit s = r1" and "take 1 r1 \<noteq> ''.''"
    and "ip \<noteq> []" and "scanExponent r1 = (e, r3)"
  shows "scanUnsigned s = Some (toNumber (of_int (digitsValue 10 ip) * pow10 e), r3)"
  using assms by (simp add: scanUnsigned_def Let_def)

lemma Number_1e400: "Number ''1e400'' = PInf"
proof -
  have "scanUnsigned ''1e400'' = Some (toNumber (of_int (digitsValue 10 ''1'') * pow10 400), [])"
    by (rule scanUnsigned_exponent [where ?r1.0 = "''e400''"]; code_simp)
  moreover have "digitsValue 10 ''1'' = 1"
    by code_simp
  moreover have "toNumber (pow10 400) = PInf"
    by (rule toNumber_overflow) (simp add: pow10_powi)
  moreover have "trim ''1e400'' = ''1e400''" and "scanNonDecimal ''1e400'' = None"
    by code_simp+
  ultimately show ?thesis
    by (simp add: Number_def scanDecimal_def)
qed

lemma Number_1e_400: "Number ''1e-400'' = Fin 0"
proof -
  have "scanUnsigned ''1e-400'' = Some (toNumber (of_int (digitsValue 10 ''1'') * pow10 (- 400)), [])"
    by (rule scanUnsigned_exponent [where ?r1.0 = "''e-400''"]; code_simp)
  moreover have "digitsValue 10 ''1'' = 1"
    by code_simp
  moreover have "toNumber (pow10 (- 400)) = Fin 0"
    by (rule toNumber_underflow) (simp_all add: pow10_powi power_int_minus field_simps)
  moreover have "trim ''1e-400'' = ''1e-400''" and "scanNonDecimal ''1e-400'' = None"
    by code_simp+
  ultimately show ?thesis
    by (simp add: Number_def scanDecimal_def)
qed

lemma percent_not_NA: "s @ ''%'' \<noteq> ''N/A''"
proof
  assume "s @ ''%'' = ''N/A''"
  then have "last (s @ ''%'') = last ''N/A''" by simp
  then show False by simp
qed

lemma percent_not_NaN:
  assumes "b \<noteq> 0"
  shows "Math_round (js_mul (js_div (js_sub (Fin a) (Fin b)) (Fin b)) (Fin 100)) \<noteq> NaN"
proof -
  have 1: "js_sub (Fin a) (Fin b) \<noteq> NaN"
    by (simp add: js_sub_def toNumber_not_NaN)
  have 2: "x \<noteq> NaN \<Longrightarrow> js_div x (Fin b) \<noteq> NaN" for x
    using assms by (cases x) (simp_all add: js_div_def toNumber_not_NaN)
  have 3: "x \<noteq> NaN \<Longrightarrow> js_mul x (Fin 100) \<noteq> NaN" for x
    by (cases x) (simp_all add: js_mul_def toNumber_not_NaN)
  have 4: "x \<noteq> NaN \<Longrightarrow> Math_round x \<noteq> NaN" for x
    by (cases x) (simp_all add: Math_round_def)
  from 1 2 3 4 show ?thesis by blast
qed

lemma digit_char:
  assumes "0 \<le> n" and "n < 10"
  shows "char_of (48 + n :: int) \<in> set ''0123456789''"
proof -
  have "list_all (\<lambda>k. char_of (48 + int k) \<in> set ''0123456789'') [0..<10]"
    by code_simp
  then have all: "\<forall>k<10. char_of (48 + int k) \<in> set ''0123456789''"
    by (simp add: list_all_iff)
  from assms have "nat n < 10" and "int (nat n) = n"
    by simp_all
  with all show ?thesis
    by metis
qed

lemma showDigits_set: "0 \<le> m \<Longrightarrow> set (showDigits m) \<subseteq> set ''0123456789''"
proof (induction m rule: showDigits.induct)
  case (1 n)
  show ?case
  proof (cases "n < 10")
    case True
    have "showDigits n = [char_of (48 + n)]"
      by (subst showDigits.simps) (simp add: True)
    then show ?thesis
      using digit_char [OF "1.prems" True] by simp
  next
    case False
    have e: "showDigits n = showDigits (n div 10) @ [char_of (48 + n mod 10)]"
      by (subst showDigits.simps) (simp add: False)
    have "0 \<le> n div 10"
      using "1.prems" by simp
    with "1.IH" False have "set (showDigits (n div 10)) \<subseteq> set ''0123456789''"
      by simp
    moreover have "char_of (48 + n mod 10) \<in> set ''0123456789''"
      by (rule digit_char) simp_all
    ultimately show ?thesis
      unfolding e by simp
  qed
qed


lemma digitCount_pos: "1 \<le> digitCount n"
proof -
  have "showDigits n \<noteq> []"
    by (subst showDigits.simps) simp
  then show ?thesis
    by (cases "showDigits n") (simp_all add: digitCount_def)
qed

lemma foldl_nearer_mem: "foldl (nearer x k) c cs \<in> set (c # cs)"
proof (induction cs arbitrary: c)
  case Nil
  show ?case by simp
next
  case (Cons b cs)
  have "nearer x k c b = c \<or> nearer x k c b = b"
    by (simp add: nearer_def Let_def)
  with Cons [of "nearer x k c b"] show ?case
    by auto
qed

lemma shortestDigits_nonneg:
  assumes "0 \<le> x" and "1 \<le> k" and "shortestDigits x k = (s, n)"
  shows "0 \<le> s \<and> 1 \<le> n"
  using assms
proof (induction x k rule: shortestDigits.induct)
  case (1 x k)
  show ?case
  proof (cases "digitCount x \<le> k")
    case True
    then have "shortestDigits x k = (x, digitCount x)"
      by (subst shortestDigits.simps) simp
    with "1.prems" digitCount_pos [of x] show ?thesis
      by auto
  next
    case False
    show ?thesis
    proof (cases "digitCandidates x k")
      case Nil
      with False have "shortestDigits x k = shortestDigits x (k + 1)"
        by (subst shortestDigits.simps) simp
      with "1.IH" [OF False Nil] "1.prems" show ?thesis
        by simp
    next
      case (Cons c cs)
      with False have "shortestDigits x k = foldl (nearer x k) c cs"
        by (subst shortestDigits.simps) simp
      with "1.prems"(3) foldl_nearer_mem [of x k c cs] Cons
      have "(s, n) \<in> set (digitCandidates x k)"
        by simp
      then have rt: "roundTrips x k (s, n)"
        unfolding digitCandidates_def set_filter by (rule CollectE) (rule conjunct2)
      have "0 < powInt 10 (k - 1)"
        by (rule powInt_pos) simp
      with rt "1.prems"(2) show ?thesis
        by (auto simp: roundTrips_def split: if_splits)
    qed
  qed
qed

lemma showMagnitude_set:
  assumes m: "0 \<le> m"
  shows "set (showMagnitude m) \<subseteq> set ''0123456789.e+''"
proof (cases "m = 0")
  case True
  then show ?thesis by (simp add: showMagnitude_def)
next
  case False
  define D where "D = set ''0123456789.e+''"
  have sub: "set ''0123456789'' \<subseteq> D" and dot: "set ''.'' \<subseteq> D" and ex: "set ''e+'' \<subseteq> D"
    and zero: "CHR ''0'' \<in> D"
    unfolding D_def by simp_all
  have d: "set (showDigits k) \<subseteq> D" if "0 \<le> k" for k
    using showDigits_set [OF that] sub by (rule subset_trans)
  obtain s n where sd: "shortestDigits m 1 = (s, n)"
    by (cases "shortestDigits m 1")
  from shortestDigits_nonneg [OF m _ sd] have s: "0 \<le> s" and n: "0 \<le> n - 1"
    by simp_all
  let ?digits = "showDigits s"
  have t: "set (take 1 ?digits) \<subseteq> D"
    using set_take_subset d [OF s] by (rule subset_trans)
  have dr: "set (drop 1 ?digits) \<subseteq> D"
    using set_drop_subset d [OF s] by (rule subset_trans)
  have mid: "set (if 1 < int (length ?digits) then ''.'' @ drop 1 ?digits else []) \<subseteq> D"
    using dot dr by (cases "1 < int (length ?digits)") simp_all
  have zs: "set (replicate j (CHR ''0'')) \<subseteq> D" for j
    using zero by (auto simp: set_replicate_conv_if)
  have plain: "set (?digits @ replicate j (CHR ''0'')) \<subseteq> D" for j
    using d [OF s] zs by simp
  have expo: "set (take 1 ?digits @ (if 1 < int (length ?digits) then ''.'' @ drop 1 ?digits else [])
                @ ''e+'' @ showDigits (n - 1)) \<subseteq> D"
    unfolding set_append using t mid ex d [OF n] by (simp only: Un_subset_iff simp_thms)
  have "set (showMagnitude m) \<subseteq> D"
    using False plain expo by (simp add: showMagnitude_def sd Let_def)
  then show ?thesis
    by (simp only: D_def)
qed

lemma roundedToString_NaN: "roundedToString x = ''NaN'' \<longleftrightarrow> x = NaN"
proof (cases x)
  case (Fin r)
  have "CHR ''N'' \<notin> set (roundedToString (Fin r))"
  proof (cases "r < 0")
    case True
    then have "0 \<le> - \<lfloor>r\<rfloor>" by simp
    from showMagnitude_set [OF this] True show ?thesis
      by (auto simp: roundedToString_def)
  next
    case False
    then have "0 \<le> \<lfloor>r\<rfloor>" by simp
    from showMagnitude_set [OF this] False show ?thesis
      by (auto simp: roundedToString_def)
  qed
  then have "roundedToString (Fin r) \<noteq> ''NaN''"
    by (intro notI) simp
  with Fin show ?thesis by simp
qed (simp_all add: roundedToString_def)

lemma parseNumericValue_None_iff:
  "parseNumericValue v = None \<longleftrightarrow>
     (\<forall>s. v = Str s \<longrightarrow> trim s = [] \<or> Number (filter (\<lambda>c. c \<noteq> CHR '','') (trim s)) = NaN)"
  by (cases v) (auto simp: parseNumericValue_def Let_def isNaN_def)

lemma parseNumericValue_not_NaN: "parseNumericValue v \<noteq> Some NaN"
  by (cases v) (auto simp: parseNumericValue_def Let_def isNaN_def)

section \<open>The percentage difference and its sentinel\<close>

text \<open>
  C1 (as the code has it). For every pair of values, \<open>computePercentageDiff\<close> returns
  \<open>N/A\<close> exactly when one of the two values is missing or unparsable (it is not a string,
  it is blank, or \<open>Number\<close> of its text without commas is \<open>NaN\<close>) or parses to zero;
  otherwise it returns \<open>round((current - previous) / previous * 100)\<close> followed by \<open>%\<close>,
  computed in doubles. When both values parse to finite numbers the result is never
  \<open>NaN%\<close>. The column values \<open>110\<close> and \<open>100\<close> give \<open>10%\<close>; the same two values passed as
  numbers, not as strings, count as missing and give \<open>N/A\<close>.

  An infinite value is not filtered. When the previous value is infinite the result is
  \<open>NaN%\<close>; when the current value is infinite and the previous one is finite, the result
  is \<open>Infinity%\<close> or \<open>-Infinity%\<close>, by the signs of the two. The text \<open>Infinity\<close> and a
  numeral above the range of the doubles, such as \<open>1e400\<close>, parse to the infinite number;
  a numeral below it, such as \<open>1e-400\<close>, parses to zero and gives \<open>N/A\<close>.

  The arithmetic is the one of doubles: \<open>63\<close> against \<open>40\<close> gives \<open>57%\<close> (the quotient
  \<open>0.575\<close> is not a double, and the product with 100 lies just below 57.5), \<open>21\<close> against
  \<open>8\<close> gives \<open>163%\<close> and \<open>3\<close> against \<open>8\<close> gives \<open>-62%\<close> (162.5 and -62.5 are rounded
  upwards). The number is printed as the language prints it, with the fewest digits that
  read back as the same double: \<open>3e22\<close> against \<open>1\<close> gives \<open>3e+24%\<close>, and \<open>1e17\<close> against
  \<open>3\<close> gives \<open>3333333333333333000%\<close> (the double is 3333333333333332992).
\<close>

theorem computePercentageDiff_cases:
  "(computePercentageDiff cur prev = ''N/A'' \<longleftrightarrow>
      parseNumericValue cur = None \<or> parseNumericValue prev = None
      \<or> parseNumericValue cur = Some (Fin 0) \<or> parseNumericValue prev = Some (Fin 0))
   \<and> (parseNumericValue cur = Some c \<and> parseNumericValue prev = Some p \<and> c \<noteq> Fin 0 \<and> p \<noteq> Fin 0
        \<longrightarrow> computePercentageDiff cur prev =
              roundedToString (Math_round (js_mul (js_div (js_sub c p) p) (Fin 100))) @ ''%'')
   \<and> (parseNumericValue cur = Some (Fin a) \<and> parseNumericValue prev = Some (Fin b) \<and> a \<noteq> 0 \<and> b \<noteq> 0
        \<longrightarrow> computePercentageDiff cur prev \<noteq> ''NaN%'')
   \<and> (parseNumericValue cur = None \<longleftrightarrow>
        (\<forall>s. cur = Str s \<longrightarrow> trim s = [] \<or> Number (filter (\<lambda>c. c \<noteq> CHR '','') (trim s)) = NaN))
   \<and> parseNumericValue cur \<noteq> Some NaN
   \<and> computePercentageDiff (Str ''110'') (Str ''100'') = ''10%''
   \<and> computePercentageDiff (Num (Fin 110)) (Num (Fin 100)) = ''N/A''
   \<and> (parseNumericValue cur = Some c \<and> parseNumericValue prev = Some p \<and> c \<noteq> Fin 0 \<and> \<not> isFinite p
        \<longrightarrow> computePercentageDiff cur prev = ''NaN%'')
   \<and> (parseNumericValue cur = Some c \<and> parseNumericValue prev = Some (Fin b) \<and> \<not> isFinite c \<and> b \<noteq> 0
        \<longrightarrow> computePercentageDiff cur prev =
              (if (c = PInf) = (0 < b) then ''Infinity%'' else ''-Infinity%''))
   \<and> parseNumericValue (Str ''Infinity'') = Some PInf
   \<and> parseNumericValue (Str ''1e400'') = Some PInf
   \<and> parseNumericValue (Str ''1e-400'') = Some (Fin 0)
   \<and> computePercentageDiff (Str ''1e-400'') (Str ''100'') = ''N/A''
   \<and> computePercentageDiff (Str ''63'') (Str ''40'') = ''57%''
   \<and> computePercentageDiff (Str ''21'') (Str ''8'') = ''163%''
   \<and> computePercentageDiff (Str ''3'') (Str ''8'') = ''-62%''
   \<and> computePercentageDiff (Str ''3e22'') (Str ''1'') = ''3e+24%''
   \<and> computePercentageDiff (Str ''1e17'') (Str ''3'') = ''3333333333333333000%''"
proof -
  have 1: "computePercentageDiff cur prev = ''N/A'' \<longleftrightarrow>
      parseNumericValue cur = None \<or> parseNumericValue prev = None
      \<or> parseNumericValue cur = Some (Fin 0) \<or> parseNumericValue prev = Some (Fin 0)"
    using percent_not_NA by (auto simp: computePercentageDiff_def Let_def)
  have 2: "parseNumericValue cur = Some c \<and> parseNumericValue prev = Some p \<and> c \<noteq> Fin 0 \<and> p \<noteq> Fin 0
        \<longrightarrow> computePercentageDiff cur prev =
              roundedToString (Math_round (js_mul (js_div (js_sub c p) p) (Fin 100))) @ ''%''"
    by (simp add: computePercentageDiff_def)
  have 3: "parseNumericValue cur = Some (Fin a) \<and> parseNumericValue prev = Some (Fin b) \<and> a \<noteq> 0 \<and> b \<noteq> 0
        \<longrightarrow> computePercentageDiff cur prev \<noteq> ''NaN%''"
  proof
    assume h: "parseNumericValue cur = Some (Fin a) \<and> parseNumericValue prev = Some (Fin b) \<and> a \<noteq> 0 \<and> b \<noteq> 0"
    let ?x = "Math_round (js_mul (js_div (js_sub (Fin a) (Fin b)) (Fin b)) (Fin 100))"
    have r: "computePercentageDiff cur prev = roundedToString ?x @ ''%''"
      using h by (simp add: computePercentageDiff_def)
    have n: "?x \<noteq> NaN"
      using h by (intro percent_not_NaN) simp
    have "roundedToString ?x \<noteq> ''NaN''"
      using n by (simp add: roundedToString_NaN)
    with r show "computePercentageDiff cur prev \<noteq> ''NaN%''" by simp
  qed
  have 4: "parseNumericValue cur = None \<longleftrightarrow>
        (\<forall>s. cur = Str s \<longrightarrow> trim s = [] \<or> Number (filter (\<lambda>c. c \<noteq> CHR '','') (trim s)) = NaN)"
    by (rule parseNumericValue_None_iff)
  have 5: "parseNumericValue cur \<noteq> Some NaN"
    by (rule parseNumericValue_not_NaN)
  have 6: "computePercentageDiff (Str ''110'') (Str ''100'') = ''10%''"
    by code_simp
  have 7: "computePercentageDiff (Num (Fin 110)) (Num (Fin 100)) = ''N/A''"
    by (simp add: computePercentageDiff_def parseNumericValue_def)
  have 8: "parseNumericValue cur = Some c \<and> parseNumericValue prev = Some p \<and> c \<noteq> Fin 0 \<and> \<not> isFinite p
        \<longrightarrow> computePercentageDiff cur prev = ''NaN%''"
  proof
    assume h: "parseNumericValue cur = Some c \<and> parseNumericValue prev = Some p \<and> c \<noteq> Fin 0 \<and> \<not> isFinite p"
    then have "c \<noteq> NaN" and "p \<noteq> NaN"
      using parseNumericValue_not_NaN [of cur] parseNumericValue_not_NaN [of prev] by auto
    with h have "Math_round (js_mul (js_div (js_sub c p) p) (Fin 100)) = NaN"
      by (cases c; cases p)
        (simp_all add: isFinite_def js_sub_def js_div_def js_mul_def Math_round_def)
    moreover have "p \<noteq> Fin 0"
      using h by (auto simp: isFinite_def)
    ultimately show "computePercentageDiff cur prev = ''NaN%''"
      using h by (simp add: computePercentageDiff_def roundedToString_def)
  qed
  have 9: "parseNumericValue cur = Some c \<and> parseNumericValue prev = Some (Fin b) \<and> \<not> isFinite c \<and> b \<noteq> 0
        \<longrightarrow> computePercentageDiff cur prev =
              (if (c = PInf) = (0 < b) then ''Infinity%'' else ''-Infinity%'')"
  proof
    assume h: "parseNumericValue cur = Some c \<and> parseNumericValue prev = Some (Fin b) \<and> \<not> isFinite c \<and> b \<noteq> 0"
    then have "c \<noteq> NaN"
      using parseNumericValue_not_NaN [of cur] by auto
    with h have c: "c = PInf \<or> c = NInf"
      by (cases c) (simp_all add: isFinite_def)
    have r: "computePercentageDiff cur prev =
        roundedToString (Math_round (js_mul (js_div (js_sub c (Fin b)) (Fin b)) (Fin 100))) @ ''%''"
      using h c by (auto simp: computePercentageDiff_def)
    from c h show "computePercentageDiff cur prev =
        (if (c = PInf) = (0 < b) then ''Infinity%'' else ''-Infinity%'')"
      unfolding r
      by (auto simp: js_sub_def js_div_def js_mul_def Math_round_def roundedToString_def)
  qed
  have 10: "parseNumericValue (Str ''Infinity'') = Some PInf"
    by code_simp
  have t: "trim ''1e400'' = ''1e400''" "filter (\<lambda>c. c \<noteq> CHR '','') ''1e400'' = ''1e400''"
    "trim ''1e-400'' = ''1e-400''" "filter (\<lambda>c. c \<noteq> CHR '','') ''1e-400'' = ''1e-400''"
    by code_simp+
  have 11: "parseNumericValue (Str ''1e400'') = Some PInf"
    by (simp add: parseNumericValue_def t Number_1e400 isNaN_def)
  have 12: "parseNumericValue (Str ''1e-400'') = Some (Fin 0)"
    by (simp add: parseNumericValue_def t Number_1e_400 isNaN_def)
  have 13: "computePercentageDiff (Str ''1e-400'') (Str ''100'') = ''N/A''"
    by (simp add: computePercentageDiff_def 12)
  have 14: "computePercentageDiff (Str ''63'') (Str ''40'') = ''57%''"
    by code_simp
  have 15: "computePercentageDiff (Str ''21'') (Str ''8'') = ''163%''"
    by code_simp
  have 16: "computePercentageDiff (Str ''3'') (Str ''8'') = ''-62%''"
    by code_simp
  have 17: "computePercentageDiff (Str ''3e22'') (Str ''1'') = ''3e+24%''"
    by code_simp
  have 18: "computePercentageDiff (Str ''1e17'') (Str ''3'') = ''3333333333333333000%''"
    by code_simp
  from 1 2 3 4 5 6 7 8 9 10 11 12 13 14 15 16 17 18 show ?thesis
    by (intro conjI)
qed

text \<open>
  The column values \<open>1,100\<close> and \<open>1000\<close> (with blanks around it) give \<open>10%\<close>; \<open>-Infinity\<close>
  against \<open>-5\<close> gives \<open>Infinity%\<close>, and \<open>5\<close> against \<open>Infinity\<close> gives \<open>NaN%\<close>.
\<close>

theorem computePercentageDiff_cases_witness:
  "computePercentageDiff (Str ''1,100'') (Str '' 1000 '') = ''10%''
   \<and> computePercentageDiff (Str ''1,100'') (Str '' 1000 '') \<noteq> ''NaN%''
   \<and> computePercentageDiff (Str ''1,100'') (Str '' 1000 '') \<noteq> ''N/A''
   \<and> computePercentageDiff (Str ''-Infinity'') (Str ''-5'') = ''Infinity%''
   \<and> computePercentageDiff (Str ''5'') (Str ''Infinity'') = ''NaN%''"
proof -
  have c: "parseNumericValue (Str ''1,100'') = Some (Fin 1100)"
    and p: "parseNumericValue (Str '' 1000 '') = Some (Fin 1000)"
    by code_simp+
  have v: "roundedToString (Math_round (js_mul (js_div (js_sub (Fin 1100) (Fin 1000)) (Fin 1000)) (Fin 100))) @ ''%'' = ''10%''"
    by code_simp
  have z: "Fin 1100 \<noteq> Fin 0" "Fin 1000 \<noteq> Fin 0" "(1100::rat) \<noteq> 0" "(1000::rat) \<noteq> 0"
    by simp_all
  from computePercentageDiff_cases
    [of "Str ''1,100''" "Str '' 1000 ''" "Fin 1100" "Fin 1000" 1100 1000] c p z v
  have 1: "computePercentageDiff (Str ''1,100'') (Str '' 1000 '') = ''10%''
     \<and> computePercentageDiff (Str ''1,100'') (Str '' 1000 '') \<noteq> ''NaN%''
     \<and> computePercentageDiff (Str ''1,100'') (Str '' 1000 '') \<noteq> ''N/A''"
    by simp
  have i: "parseNumericValue (Str ''-Infinity'') = Some NInf"
    and f: "parseNumericValue (Str ''-5'') = Some (Fin (- 5))"
    by code_simp+
  have k: "\<not> isFinite NInf" "\<not> isFinite PInf" "(- 5::rat) \<noteq> 0" "Fin 5 \<noteq> Fin 0"
    by (simp_all add: isFinite_def)
  from computePercentageDiff_cases
    [of "Str ''-Infinity''" "Str ''-5''" NInf "Fin (- 5)" 0 "- 5"] i f k
  have "computePercentageDiff (Str ''-Infinity'') (Str ''-5'') =
      (if (NInf = PInf) = (0 < (- 5::rat)) then ''Infinity%'' else ''-Infinity%'')"
    by blast
  then have 2: "computePercentageDiff (Str ''-Infinity'') (Str ''-5'') = ''Infinity%''"
    by simp
  have g: "parseNumericValue (Str ''5'') = Some (Fin 5)"
    and j: "parseNumericValue (Str ''Infinity'') = Some PInf"
    by code_simp+
  from computePercentageDiff_cases
    [of "Str ''5''" "Str ''Infinity''" "Fin 5" PInf 0 0] g j k
  have 3: "computePercentageDiff (Str ''5'') (Str ''Infinity'') = ''NaN%''"
    by blast
  from 1 2 3 show ?thesis
    by (intro conjI) simp_all
qed

text \<open>
  C1 as stated fails: the column value \<open>Infinity\<close> is neither missing, unparsable nor
  zero (\<open>Number\<close> reads it as the infinite number), and the result is then
  \<open>Infinity%\<close> against a finite previous value and \<open>NaN%\<close> against an infinite one.
\<close>

theorem computePercentageDiff_infinity_counterexample:
  "parseNumericValue (Str ''Infinity'') = Some PInf
   \<and> parseNumericValue (Str ''100'') = Some (Fin 100)
   \<and> computePercentageDiff (Str ''Infinity'') (Str ''100'') = ''Infinity%''
   \<and> computePercentageDiff (Str ''Infinity'') (Str ''Infinity'') = ''NaN%''"
  by code_simp
section \<open>Facts about the prompt and the conversion\<close>

lemma positiveRate_iff: "positiveRate r \<longleftrightarrow> \<not> isNaN r \<and> \<not> js_le r (Fin 0)"
  by (cases r) (auto simp: positiveRate_def isNaN_def js_le_def)

lemma positiveRate_truthy: "positiveRate r \<Longrightarrow> truthyNumber r"
  by (cases r) (auto simp: positiveRate_def truthyNumber_def)

lemma promptRetry_result:
  assumes "promptRetry rate inputs = Some y"
  shows "case fst y of None \<Rightarrow> True | Some r \<Rightarrow> positiveRate r"
  using assms
proof (induction rate inputs y rule: promptRetry.raw_induct [rotated 1, consumes 1])
  case (1 retry rate inputs y)
  show ?case
  proof (cases "isNaN rate \<or> js_le rate (Fin 0)")
    case True
    show ?thesis
    proof (cases "nextInput inputs")
      case None
      with True "1"(2) show ?thesis by auto
    next
      case (Some input)
      with True "1"(2) have "retry (parseFloat input) (laterInputs inputs) = Some y"
        by simp
      then show ?thesis by (rule "1"(1))
    qed
  next
    case False
    with "1"(2) have "y = (Some rate, inputs)" by simp
    with False show ?thesis by (simp add: positiveRate_iff)
  qed
qed

lemma promptRetry_positive:
  "promptRetry rate inputs = Some (Some r, inputs') \<Longrightarrow> positiveRate r"
  by (drule promptRetry_result) simp

lemma promptForExchangeRate_positive:
  "promptForExchangeRate code inputs = Some (Some r, inputs') \<Longrightarrow> positiveRate r"
  unfolding promptForExchangeRate_def
  by (auto split: option.splits dest: promptRetry_positive)

lemma convertToUSD_numeric:
  assumes a: "amount \<noteq> Null" "amount \<noteq> Undefined" "amount \<noteq> Str []"
    and n: "\<not> isNaN (parseFloatValue amount)"
    and c: "cur \<noteq> []"
  shows "convertToUSD amount (Some cur) cache inputs =
     (if toUpperCase cur = ''USD'' then Some (Num (parseFloatValue amount), cache, inputs)
      else case (case cache (toUpperCase cur) of
                   None \<Rightarrow> None
                 | Some r \<Rightarrow> if truthyNumber r then Some r else None) of
             Some rate \<Rightarrow> Some (Num (js_div (parseFloatValue amount) rate), cache, inputs)
           | None \<Rightarrow>
               (case promptForExchangeRate (toUpperCase cur) inputs of
                  None \<Rightarrow> None
                | Some (None, inputs') \<Rightarrow>
                    Some (Str (toFixed2 (parseFloatValue amount) @ '' '' @ toUpperCase cur
                            @ '' (Rate needed)''), cache, inputs')
                | Some (Some rate, inputs') \<Rightarrow>
                    if truthyNumber rate then
                      Some (Num (js_div (parseFloatValue amount) rate),
                            cache(toUpperCase cur \<mapsto> rate), inputs')
                    else
                      Some (Str (toFixed2 (parseFloatValue amount) @ '' '' @ toUpperCase cur
                              @ '' (No Rate)''),
                            cache(toUpperCase cur \<mapsto> rate), inputs')))"
  using assms unfolding convertToUSD_def Let_def option.sel by simp

section \<open>Conversion in the reference currency and with a cached rate\<close>

text \<open>
  C5. For every numeric amount (a value other than \<open>null\<close>, \<open>undefined\<close> and the empty text
  that \<open>parseFloat\<close> reads as a number \<open>n\<close>, not as \<open>NaN\<close>; for an amount that is a
  number, \<open>n\<close> is the amount itself), the conversion with a currency that upper-cases to
  \<open>USD\<close> returns \<open>n\<close> unchanged as a number, and the conversion with another currency
  that has a cached rate \<open>r\<close> returns \<open>n / r\<close>; neither asks the user nor changes the
  cache. A cached rate is a rate that the prompt returned: it is above zero
  (\<open>positiveRate\<close>).
\<close>

theorem convertToUSD_reference_and_cached:
  assumes "amount \<noteq> Null" "amount \<noteq> Undefined" "amount \<noteq> Str []"
    and "parseFloatValue amount = n" and "\<not> isNaN n"
  shows "(toUpperCase cur = ''USD'' \<longrightarrow>
            convertToUSD amount (Some cur) cache inputs = Some (Num n, cache, inputs))
    \<and> (cur \<noteq> [] \<and> toUpperCase cur \<noteq> ''USD'' \<and> cache (toUpperCase cur) = Some r \<and> positiveRate r \<longrightarrow>
            convertToUSD amount (Some cur) cache inputs = Some (Num (js_div n r), cache, inputs))
    \<and> parseFloatValue (Num n) = n"
proof (intro conjI impI)
  assume u: "toUpperCase cur = ''USD''"
  then have "cur \<noteq> []" by (auto simp: toUpperCase_def)
  from convertToUSD_numeric [OF assms(1-3) _ this, of cache inputs] assms(4,5) u
  show "convertToUSD amount (Some cur) cache inputs = Some (Num n, cache, inputs)"
    by simp
next
  assume h: "cur \<noteq> [] \<and> toUpperCase cur \<noteq> ''USD'' \<and> cache (toUpperCase cur) = Some r \<and> positiveRate r"
  then have "truthyNumber r" by (simp add: positiveRate_truthy)
  with convertToUSD_numeric [OF assms(1-3), of cur cache inputs] assms(4,5) h
  show "convertToUSD amount (Some cur) cache inputs = Some (Num (js_div n r), cache, inputs)"
    by simp
next
  show "parseFloatValue (Num n) = n"
    by (simp add: parseFloatValue_def)
qed

text \<open>
  1000 USD stay 1000; 1000 EUR at the cached rate 0.92 (the double nearest to it) are
  1000 / 0.92 USD, the double that prints as 1086.9565217391305.
\<close>

theorem convertToUSD_reference_and_cached_witness:
  "parseFloat ''0.92'' = Fin (8286623314361713 / 9007199254740992)
   \<and> convertToUSD (Num (Fin 1000)) (Some ''USD'')
         (Map.empty(''EUR'' \<mapsto> Fin (8286623314361713 / 9007199254740992))) (answers [])
     = Some (Num (Fin 1000), Map.empty(''EUR'' \<mapsto> Fin (8286623314361713 / 9007199254740992)), answers [])
   \<and> convertToUSD (Num (Fin 1000)) (Some ''eur'')
         (Map.empty(''EUR'' \<mapsto> Fin (8286623314361713 / 9007199254740992))) (answers [])
     = Some (Num (Fin (2390242669078261 / 2199023255552)),
             Map.empty(''EUR'' \<mapsto> Fin (8286623314361713 / 9007199254740992)), answers [])"
proof -
  define rate where "rate = Fin (8286623314361713 / 9007199254740992)"
  have a: "Num (Fin 1000) \<noteq> Null" "Num (Fin 1000) \<noteq> Undefined" "Num (Fin 1000) \<noteq> Str []"
    "parseFloatValue (Num (Fin 1000)) = Fin 1000" "\<not> isNaN (Fin 1000)"
    by (simp_all add: parseFloatValue_def isNaN_def)
  have u: "toUpperCase ''USD'' = ''USD''" and e: "toUpperCase ''eur'' = ''EUR''"
    and ne: "''EUR'' \<noteq> ''USD''" "''eur'' \<noteq> []"
    by code_simp+
  have p: "positiveRate rate"
    by (simp add: positiveRate_def rate_def)
  have r: "parseFloat ''0.92'' = rate"
    unfolding rate_def by code_simp
  have d: "js_div (Fin 1000) rate = Fin (2390242669078261 / 2199023255552)"
    unfolding rate_def by code_simp
  from convertToUSD_reference_and_cached
    [OF a, where cur = "''USD''" and cache = "Map.empty(''EUR'' \<mapsto> rate)" and inputs = "answers []"] u
  have 1: "convertToUSD (Num (Fin 1000)) (Some ''USD'') (Map.empty(''EUR'' \<mapsto> rate)) (answers [])
     = Some (Num (Fin 1000), Map.empty(''EUR'' \<mapsto> rate), answers [])"
    by blast
  from convertToUSD_reference_and_cached
    [OF a, where cur = "''eur''" and cache = "Map.empty(''EUR'' \<mapsto> rate)"
       and r = rate and inputs = "answers []"]
    e ne p
  have 2: "convertToUSD (Num (Fin 1000)) (Some ''eur'') (Map.empty(''EUR'' \<mapsto> rate)) (answers [])
     = Some (Num (js_div (Fin 1000) rate), Map.empty(''EUR'' \<mapsto> rate), answers [])"
    by simp
  from 1 2 d r show ?thesis
    unfolding rate_def by simp
qed
end
